theory Spec2Isabelle
  imports Main "HOL-Library.Word"
begin

unbundle bit_operations_syntax

section \<open>Kernel constants and absent macros\<close>

text \<open>
  The errno values of the Linux kernel (\<^verbatim>\<open>asm-generic/errno-base.h\<close>). A C \<^verbatim>\<open>int\<close> that
  is only assigned, compared and returned is an \<open>int\<close> here.
\<close>

definition EPERM :: int where "EPERM = 1"
definition ECHILD :: int where "ECHILD = 10"
definition EINVAL :: int where "EINVAL = 22"

text \<open>\<^verbatim>\<open>#define MAX_CONTINUE_RESPONSES 256\<close>\<close>

definition MAX_CONTINUE_RESPONSES :: nat where "MAX_CONTINUE_RESPONSES = 256"

text \<open>
  Modelled from the spec: the response codes are macros of \<^verbatim>\<open>dynsec.h\<close>, which is not among
  the sources. The spec gives \<open>ALLOW = 0\<close> and two further codes, DENY and CONTINUE; the
  code only compares against them, so only their being distinct matters.
\<close>

definition DYNSEC_RESPONSE_ALLOW :: int where "DYNSEC_RESPONSE_ALLOW = 0"
definition DYNSEC_RESPONSE_EPERM :: int where "DYNSEC_RESPONSE_EPERM = 1"
definition DYNSEC_RESPONSE_CONTINUE :: int where "DYNSEC_RESPONSE_CONTINUE = 2"

text \<open>
  Modelled from the spec: the report flags are macros of \<^verbatim>\<open>dynsec.h\<close> (absent); the spec
  calls \<open>report_flags\<close> a bitset over AUDIT, STALL, SELF, IGNORE, so each is one bit of the
  \<^verbatim>\<open>uint16_t\<close>, and the bits are distinct.
\<close>

definition DYNSEC_REPORT_STALL :: "16 word" where "DYNSEC_REPORT_STALL = 0x0001"
definition DYNSEC_REPORT_AUDIT :: "16 word" where "DYNSEC_REPORT_AUDIT = 0x0004"
definition DYNSEC_REPORT_SELF :: "16 word" where "DYNSEC_REPORT_SELF = 0x0010"
definition DYNSEC_REPORT_IGNORE :: "16 word" where "DYNSEC_REPORT_IGNORE = 0x0020"

text \<open>
  The kernel's error pointers (\<^verbatim>\<open>linux/err.h\<close>): a pointer is an error when it lies in the
  last 4095 addresses; \<^verbatim>\<open>PTR_ERR\<close> reads it as a \<^verbatim>\<open>long\<close>, which the \<^verbatim>\<open>int\<close> return
  type of the caller then truncates to 32 bits.
\<close>

definition IS_ERR :: "64 word \<Rightarrow> bool" where
  "IS_ERR p = (p \<ge> - 4095)"

definition PTR_ERR :: "64 word \<Rightarrow> int" where
  "PTR_ERR p = sint (ucast p :: 32 word)"

section \<open>Data model of the stall engine\<close>

text \<open>The fields of \<^verbatim>\<open>struct dynsec_event\<close> that the hooks and the stall engine read.\<close>

datatype dynsec_event_type =
    DYNSEC_EVENT_TYPE_EXEC | DYNSEC_EVENT_TYPE_UNLINK | DYNSEC_EVENT_TYPE_RMDIR
  | DYNSEC_EVENT_TYPE_RENAME | DYNSEC_EVENT_TYPE_SETATTR | DYNSEC_EVENT_TYPE_MKDIR
  | DYNSEC_EVENT_TYPE_CREATE | DYNSEC_EVENT_TYPE_LINK | DYNSEC_EVENT_TYPE_SYMLINK
  | DYNSEC_EVENT_TYPE_OPEN | DYNSEC_EVENT_TYPE_CLOSE | DYNSEC_EVENT_TYPE_PTRACE
  | DYNSEC_EVENT_TYPE_SIGNAL | DYNSEC_EVENT_TYPE_CLONE | DYNSEC_EVENT_TYPE_EXIT
  | DYNSEC_EVENT_TYPE_MMAP

datatype dynsec_hook_type =
    DYNSEC_HOOK_TYPE_EXEC | DYNSEC_HOOK_TYPE_UNLINK | DYNSEC_HOOK_TYPE_RMDIR
  | DYNSEC_HOOK_TYPE_RENAME | DYNSEC_HOOK_TYPE_SETATTR | DYNSEC_HOOK_TYPE_MKDIR
  | DYNSEC_HOOK_TYPE_CREATE | DYNSEC_HOOK_TYPE_LINK | DYNSEC_HOOK_TYPE_SYMLINK
  | DYNSEC_HOOK_TYPE_OPEN | DYNSEC_HOOK_TYPE_CLOSE | DYNSEC_HOOK_TYPE_PTRACE
  | DYNSEC_HOOK_TYPE_SIGNAL | DYNSEC_HOOK_TYPE_MMAP | DYNSEC_HOOK_TYPE_TASK_FREE
  | DYNSEC_TP_HOOK_TYPE_CLONE | DYNSEC_TP_HOOK_TYPE_EXIT | DYNSEC_TP_HOOK_TYPE_TASK_FREE

record dynsec_event =
  ev_event_type :: dynsec_event_type
  ev_hook_type :: dynsec_hook_type
  ev_report_flags :: "16 word"

text \<open>
  \<^verbatim>\<open>struct stall_entry\<close>: the source names only \<^verbatim>\<open>DYNSEC_STALL_MODE_STALL\<close>; the other
  mode is the spec's RELEASED.
\<close>

datatype stall_mode = DYNSEC_STALL_MODE_STALL | DYNSEC_STALL_MODE_RELEASED

record stall_entry =
  entry_mode :: stall_mode
  entry_response :: int
  entry_stall_timeout :: nat

text \<open>
  The calls a hook and the stall engine make into the stall table and the allocator, in
  the order they are made.
\<close>

datatype call =
    Free_dynsec_event "dynsec_event option"
  | Stall_tbl_insert dynsec_event
  | Stall_tbl_remove_entry
  | Kfree_entry
  | Dynsec_wait_event_timeout dynsec_event
  | Enqueue_nonstall_event dynsec_event
  | Enqueue_nonstall_event_low_pri dynsec_event

text \<open>
  What the waiter reads from shared state in one pass through the \<^verbatim>\<open>retry:\<close> label: the
  three global switches, the result of \<^verbatim>\<open>wait_event_interruptible_timeout\<close> (negative:
  interrupted by a signal, zero: timed out, positive: the condition became true), the
  entry's fields as user space left them, and the configured continuation timeout.
\<close>

record round =
  r_stall_tbl_enabled :: bool
  r_stall_mode_enabled :: bool
  r_bypass_mode_enabled :: bool
  r_wait_ret :: int
  r_response :: int
  r_stall_timeout :: nat
  r_get_continue_timeout :: nat

text \<open>
  The surroundings of one stall: the kernel's \<^verbatim>\<open>msecs_to_jiffies\<close>, the configured
  \<^verbatim>\<open>get_wait_timeout()\<close>, and the pass-by-pass observations, indexed by the number of
  continuations taken so far (each jump to \<^verbatim>\<open>retry:\<close> follows one increment of
  \<^verbatim>\<open>continue_count\<close>).
\<close>

record stall_env =
  msecs_to_jiffies :: "nat \<Rightarrow> nat"
  get_wait_timeout :: nat
  rounds :: "nat \<Rightarrow> round"

text \<open>
  The state the stall engine changes: the caller's \<^verbatim>\<open>*response\<close>, the entry, the calls
  made so far, and the timeout (in jiffies) granted to each wait performed.
\<close>

record stall_state =
  st_response :: int
  st_entry :: stall_entry
  st_calls :: "call list"
  st_waits :: "nat list"

section \<open>The stall engine\<close>

text \<open>
  The tail of \<^verbatim>\<open>do_stall_interruptible\<close> after the loop: the response is written only for
  \<^verbatim>\<open>DYNSEC_RESPONSE_EPERM\<close>, the entry is removed from the table, \<^verbatim>\<open>ret\<close> is returned.
\<close>

definition do_stall_finish :: "int \<Rightarrow> int \<Rightarrow> stall_state \<Rightarrow> int \<times> stall_state" where
  "do_stall_finish local_response ret s =
     (ret,
      s\<lparr>st_response := (if local_response = DYNSEC_RESPONSE_EPERM then - EPERM else st_response s),
        st_calls := st_calls s @ [Stall_tbl_remove_entry]\<rparr>)"

text \<open>The loop of \<^verbatim>\<open>do_stall_interruptible\<close>, from the \<^verbatim>\<open>retry:\<close> label.\<close>

function do_stall_retry ::
  "('a stall_env_scheme) \<Rightarrow> int \<Rightarrow> nat \<Rightarrow> nat \<Rightarrow> stall_state \<Rightarrow> int \<times> stall_state" where
  "do_stall_retry env default_reponse timeout continue_count s =
     (let r = rounds env continue_count in
      if \<not> r_stall_tbl_enabled r then (- ECHILD, s)
      else if \<not> r_stall_mode_enabled r then (- ECHILD, s)
      else if r_bypass_mode_enabled r then (- ECHILD, s)
      else
        let s1 = s\<lparr>st_waits := st_waits s @ [timeout]\<rparr> in
        if r_wait_ret r < 0 then do_stall_finish default_reponse 0 s1
        else if r_wait_ret r = 0 then do_stall_finish default_reponse 0 s1
        else
          let local_response = r_response r;
              local_timeout = r_stall_timeout r;
              s2 = s1\<lparr>st_entry := \<lparr>entry_mode = DYNSEC_STALL_MODE_STALL,
                                     entry_response = local_response,
                                     entry_stall_timeout = local_timeout\<rparr>\<rparr>
          in
            if local_response = DYNSEC_RESPONSE_CONTINUE then
              let timeout' = (if local_timeout \<noteq> 0 then msecs_to_jiffies env local_timeout
                              else msecs_to_jiffies env (r_get_continue_timeout r));
                  continue_count' = continue_count + 1
              in
                if continue_count' < MAX_CONTINUE_RESPONSES
                then do_stall_retry env default_reponse timeout' continue_count' s2
                else do_stall_finish local_response (- ECHILD) s2
            else do_stall_finish local_response 0 s2)"
  by pat_completeness auto
termination
  by (relation "measure (\<lambda>(env, d, t, c, s). MAX_CONTINUE_RESPONSES - c)") auto

declare do_stall_retry.simps [simp del]

definition do_stall_interruptible ::
  "('a stall_env_scheme) \<Rightarrow> stall_state \<Rightarrow> int \<times> stall_state" where
  "do_stall_interruptible env s =
     do_stall_retry env (entry_response (st_entry s))
       (msecs_to_jiffies env (get_wait_timeout env)) 0 s"

text \<open>
  What \<^verbatim>\<open>dynsec_wait_event_timeout\<close> reads beyond the loop's observations: whether the
  stall table is enabled on entry, \<^verbatim>\<open>ignore_mode_enabled()\<close>, the pointer that
  \<^verbatim>\<open>stall_tbl_insert\<close> returns, and the deny-on-timeout switch of the configuration.
\<close>

record wait_env = stall_env +
  stall_tbl_enabled :: bool
  ignore_mode_enabled :: bool
  stall_tbl_insert_ptr :: "64 word"
  deny_on_timeout_enabled :: bool

text \<open>
  Modelled from the spec: \<^verbatim>\<open>stall_tbl_insert\<close> is defined in \<^verbatim>\<open>stall_tbl.c\<close>, which is not
  among the sources. Per the spec, insert "produces a fresh Stall Entry with mode=STALL
  and response = default (default is taken from config: DENY if deny_on_timeout else
  ALLOW)". Whether it returns an entry, an error pointer or NULL is the environment's.
\<close>

definition stall_tbl_insert :: "('a wait_env_scheme) \<Rightarrow> 64 word \<times> stall_entry" where
  "stall_tbl_insert env =
     (stall_tbl_insert_ptr env,
      \<lparr>entry_mode = DYNSEC_STALL_MODE_STALL,
       entry_response = (if deny_on_timeout_enabled env then DYNSEC_RESPONSE_EPERM
                         else DYNSEC_RESPONSE_ALLOW),
       entry_stall_timeout = 0\<rparr>)"

text \<open>
  The outcome of \<^verbatim>\<open>dynsec_wait_event_timeout\<close>: the value returned, the cell behind the
  \<^verbatim>\<open>response\<close> pointer afterwards (\<open>None\<close> for a NULL pointer), the calls made, and the
  timeouts of the waits performed.
\<close>

record wait_result =
  w_ret :: int
  w_response :: "int option"
  w_calls :: "call list"
  w_waits :: "nat list"

definition dynsec_wait_event_timeout ::
  "('a wait_env_scheme) \<Rightarrow> dynsec_event option \<Rightarrow> int option \<Rightarrow> wait_result" where
  "dynsec_wait_event_timeout env dynsec_event response =
     (if response = None then
        \<lparr>w_ret = - EINVAL, w_response = None, w_calls = [], w_waits = []\<rparr>
      else if dynsec_event = None \<or> \<not> stall_tbl_enabled env then
        \<lparr>w_ret = - EINVAL, w_response = Some 0,
         w_calls = [Free_dynsec_event dynsec_event], w_waits = []\<rparr>
      else
        let ev = the dynsec_event in
        if ev_report_flags ev AND DYNSEC_REPORT_IGNORE \<noteq> 0 \<and> ignore_mode_enabled env then
          \<lparr>w_ret = - ECHILD, w_response = Some 0,
           w_calls = [Free_dynsec_event dynsec_event], w_waits = []\<rparr>
        else
          let (entry_ptr, entry) = stall_tbl_insert env in
          if IS_ERR entry_ptr then
            \<lparr>w_ret = PTR_ERR entry_ptr, w_response = Some 0,
             w_calls = [Stall_tbl_insert ev, Free_dynsec_event dynsec_event], w_waits = []\<rparr>
          else if entry_ptr \<noteq> 0 then
            let (ret, s) = do_stall_interruptible env
                  \<lparr>st_response = 0, st_entry = entry,
                   st_calls = [Stall_tbl_insert ev], st_waits = []\<rparr>
            in \<lparr>w_ret = 0, w_response = Some (st_response s),
                w_calls = st_calls s @ [Kfree_entry], w_waits = st_waits s\<rparr>
          else
            \<lparr>w_ret = 0, w_response = Some 0, w_calls = [Stall_tbl_insert ev], w_waits = []\<rparr>)"

section \<open>The control request\<close>

text \<open>
  Modelled from the spec: the selector bits of the control request are macros of an absent
  header; the spec lists them as the four sub-settings a flags word selects. The two mode
  values \<^verbatim>\<open>DEFAULT_DISABLED\<close> and \<^verbatim>\<open>DEFAULT_ENABLED\<close> are the off and on of the spec.
\<close>

definition DYNSEC_STALL_MODE_SET :: "64 word" where "DYNSEC_STALL_MODE_SET = 0x1"
definition DYNSEC_STALL_DEFAULT_TIMEOUT :: "64 word" where "DYNSEC_STALL_DEFAULT_TIMEOUT = 0x2"
definition DYNSEC_STALL_CONTINUE_TIMEOUT :: "64 word" where "DYNSEC_STALL_CONTINUE_TIMEOUT = 0x4"
definition DYNSEC_STALL_DEFAULT_DENY :: "64 word" where "DYNSEC_STALL_DEFAULT_DENY = 0x8"

definition DEFAULT_DISABLED :: "32 word" where "DEFAULT_DISABLED = 0"
definition DEFAULT_ENABLED :: "32 word" where "DEFAULT_ENABLED = 1"

text \<open>
  The three timeout limits are macros of \<^verbatim>\<open>config.h\<close> (absent) whose values the spec does
  not give: they are parameters. The timeouts are unsigned and are only compared and
  copied, never computed with, so they are \<open>nat\<close>.
\<close>

record limits =
  MIN_WAIT_TIMEOUT_MS :: nat
  MAX_WAIT_TIMEOUT_MS :: nat
  MAX_EXTENDED_TIMEOUT_MS :: nat

record dynsec_stall_ioc_hdr =
  hdr_flags :: "64 word"
  hdr_stall_mode :: "32 word"
  hdr_stall_timeout :: nat
  hdr_stall_timeout_continue :: nat
  hdr_stall_timeout_deny :: "32 word"

text \<open>\<^verbatim>\<open>global_config\<close>, the fields the control request writes.\<close>

record dynsec_config =
  stall_mode :: "32 word"
  stall_timeout :: nat
  stall_timeout_continue :: nat
  stall_timeout_deny :: "32 word"

text \<open>
  Modelled from the spec: the two readers of the configuration used by the control request
  live in \<^verbatim>\<open>config.h\<close> (absent); a mode is on when it is not \<^verbatim>\<open>DEFAULT_DISABLED\<close>.
\<close>

definition stall_mode_enabled :: "dynsec_config \<Rightarrow> bool" where
  "stall_mode_enabled cfg = (stall_mode cfg \<noteq> DEFAULT_DISABLED)"

definition deny_on_timeout_enabled_cfg :: "dynsec_config \<Rightarrow> bool" where
  "deny_on_timeout_enabled_cfg cfg = (stall_timeout_deny cfg \<noteq> DEFAULT_DISABLED)"

datatype cache_call = Task_cache_clear | Inode_cache_clear

text \<open>
  \<^verbatim>\<open>handle_stall_ioc\<close>, with \<^verbatim>\<open>capable(CAP_SYS_ADMIN)\<close> as the argument \<open>capable\<close>. It
  returns the status, the configuration afterwards and the cache flushes performed. The
  four sub-settings are applied in the order of the source, each to the configuration the
  previous one left.
\<close>

definition ioc_stall_mode ::
  "dynsec_stall_ioc_hdr \<Rightarrow> dynsec_config \<times> cache_call list \<Rightarrow> dynsec_config \<times> cache_call list" where
  "ioc_stall_mode hdr cc =
     (let (cfg, cl) = cc in
      if stall_mode_enabled cfg then
        (if hdr_stall_mode hdr = DEFAULT_DISABLED
         then (cfg\<lparr>stall_mode := DEFAULT_DISABLED\<rparr>, cl @ [Task_cache_clear, Inode_cache_clear])
         else (cfg, cl))
      else
        (if hdr_stall_mode hdr \<noteq> DEFAULT_DISABLED
         then (cfg\<lparr>stall_mode := DEFAULT_ENABLED\<rparr>, cl @ [Task_cache_clear, Inode_cache_clear])
         else (cfg, cl)))"

definition ioc_default_timeout :: "limits \<Rightarrow> dynsec_stall_ioc_hdr \<Rightarrow> dynsec_config \<Rightarrow> dynsec_config" where
  "ioc_default_timeout lim hdr cfg =
     (let timeout_ms = MAX_WAIT_TIMEOUT_MS lim;
          timeout_ms = (if hdr_stall_timeout hdr < MAX_WAIT_TIMEOUT_MS lim
                        then hdr_stall_timeout hdr else timeout_ms);
          timeout_ms = (if timeout_ms < MIN_WAIT_TIMEOUT_MS lim
                        then MIN_WAIT_TIMEOUT_MS lim else timeout_ms)
      in cfg\<lparr>stall_timeout := timeout_ms\<rparr>)"

definition ioc_continue_timeout :: "limits \<Rightarrow> dynsec_stall_ioc_hdr \<Rightarrow> dynsec_config \<Rightarrow> dynsec_config" where
  "ioc_continue_timeout lim hdr cfg =
     (let timeout_ms = (if hdr_stall_timeout_continue hdr > stall_timeout cfg
                        then hdr_stall_timeout_continue hdr else stall_timeout cfg);
          timeout_ms = (if timeout_ms > MAX_EXTENDED_TIMEOUT_MS lim
                        then MAX_EXTENDED_TIMEOUT_MS lim else timeout_ms)
      in cfg\<lparr>stall_timeout_continue := timeout_ms\<rparr>)"

definition ioc_default_deny :: "dynsec_stall_ioc_hdr \<Rightarrow> dynsec_config \<Rightarrow> dynsec_config" where
  "ioc_default_deny hdr cfg =
     (if deny_on_timeout_enabled_cfg cfg then
        (if hdr_stall_timeout_deny hdr = DEFAULT_DISABLED
         then cfg\<lparr>stall_timeout_deny := DEFAULT_DISABLED\<rparr> else cfg)
      else
        (if hdr_stall_timeout_deny hdr \<noteq> DEFAULT_DISABLED
         then cfg\<lparr>stall_timeout_deny := DEFAULT_ENABLED\<rparr> else cfg))"

definition handle_stall_ioc ::
  "limits \<Rightarrow> bool \<Rightarrow> dynsec_stall_ioc_hdr option \<Rightarrow> dynsec_config
     \<Rightarrow> int \<times> dynsec_config \<times> cache_call list" where
  "handle_stall_ioc lim capable hdr_ptr cfg =
     (case hdr_ptr of
        None \<Rightarrow> (- EINVAL, cfg, [])
      | Some hdr \<Rightarrow>
          let flags = hdr_flags hdr AND
                (DYNSEC_STALL_MODE_SET OR DYNSEC_STALL_DEFAULT_TIMEOUT
                 OR DYNSEC_STALL_CONTINUE_TIMEOUT OR DYNSEC_STALL_DEFAULT_DENY)
          in
            if flags = 0 then (- EINVAL, cfg, [])
            else if \<not> capable then (- EPERM, cfg, [])
            else
              let (cfg, cl) = (if flags AND DYNSEC_STALL_MODE_SET \<noteq> 0
                               then ioc_stall_mode hdr (cfg, []) else (cfg, []));
                  cfg = (if flags AND DYNSEC_STALL_DEFAULT_TIMEOUT \<noteq> 0
                         then ioc_default_timeout lim hdr cfg else cfg);
                  cfg = (if flags AND DYNSEC_STALL_CONTINUE_TIMEOUT \<noteq> 0
                         then ioc_continue_timeout lim hdr cfg else cfg);
                  cfg = (if flags AND DYNSEC_STALL_DEFAULT_DENY \<noteq> 0
                         then ioc_default_deny hdr cfg else cfg)
              in (0, cfg, cl))"

section \<open>The hook adapters\<close>

text \<open>
  The adapters are modelled as compiled for a kernel of version 4.0 or later, where the
  chained call through \<^verbatim>\<open>g_original_ops_ptr\<close> is compiled out and \<^verbatim>\<open>FMODE_STREAM\<close> and
  \<^verbatim>\<open>FMODE_NONOTIFY\<close> are defined. The mode, protection and mapping bits below are the
  kernel's own (\<^verbatim>\<open>stat.h\<close>, \<^verbatim>\<open>fs.h\<close>, \<^verbatim>\<open>mman.h\<close>, \<^verbatim>\<open>ptrace.h\<close>).
\<close>

definition S_IFMT :: "16 word" where "S_IFMT = 0xF000"
definition S_ISLNK :: "16 word \<Rightarrow> bool" where "S_ISLNK m = (m AND S_IFMT = 0xA000)"
definition S_ISREG :: "16 word \<Rightarrow> bool" where "S_ISREG m = (m AND S_IFMT = 0x8000)"
definition S_ISDIR :: "16 word \<Rightarrow> bool" where "S_ISDIR m = (m AND S_IFMT = 0x4000)"

definition ATTR_MODE :: "32 word" where "ATTR_MODE = 0x1"
definition ATTR_UID :: "32 word" where "ATTR_UID = 0x2"
definition ATTR_GID :: "32 word" where "ATTR_GID = 0x4"
definition ATTR_SIZE :: "32 word" where "ATTR_SIZE = 0x8"

definition FMODE_WRITE :: "32 word" where "FMODE_WRITE = 0x2"
definition FMODE_EXEC :: "32 word" where "FMODE_EXEC = 0x20"
definition FMODE_STREAM :: "32 word" where "FMODE_STREAM = 0x200000"
definition FMODE_NONOTIFY :: "32 word" where "FMODE_NONOTIFY = 0x4000000"

definition PROT_EXEC :: "64 word" where "PROT_EXEC = 0x4"
definition MAP_DENYWRITE :: "64 word" where "MAP_DENYWRITE = 0x0800"
definition MAP_EXECUTABLE :: "64 word" where "MAP_EXECUTABLE = 0x1000"
definition PTRACE_MODE_ATTACH :: "32 word" where "PTRACE_MODE_ATTACH = 0x02"

record inode =
  i_mode :: "16 word"
  i_uid :: "32 word"
  i_gid :: "32 word"
  i_size :: "64 word"

record dentry =
  d_inode :: "inode option"

record struct_file =
  f_mode :: "32 word"
  f_path_dentry :: "dentry option"

record linux_binprm =
  bprm_file :: "struct_file option"

record iattr =
  ia_valid :: "32 word"
  ia_mode :: "16 word"
  ia_uid :: "32 word"
  ia_gid :: "32 word"
  ia_size :: "64 word"

text \<open>
  A task, with the answer of \<^verbatim>\<open>task_in_connected_tgid\<close> for it and for its
  \<^verbatim>\<open>real_parent\<close> (the set of agent process groups is not among the sources).
\<close>

record task_struct =
  tgid :: nat
  pid :: nat
  in_execve :: bool
  in_connected_tgid :: bool
  real_parent_in_connected_tgid :: bool

text \<open>
  What a hook reads from its surroundings: the enabled-hooks mask (a bit per hook type,
  read here as a predicate since the bit values are in an absent header), the stall table's
  switch when the hook looks at it, the \<^verbatim>\<open>current\<close> task, whether the allocator and the
  filler succeed, the value \<^verbatim>\<open>enqueue_nonstall_event\<close> returns, and the four mmap
  policy switches.
\<close>

record hook_env = wait_env +
  lsm_hooks_enabled :: "dynsec_hook_type \<Rightarrow> bool"
  hook_stall_tbl_enabled :: bool
  current_task :: task_struct
  alloc_fails :: bool
  fill_ok :: bool
  enqueue_ret :: "32 word"
  mmap_report_misc :: bool
  mmap_stall_misc :: bool
  mmap_stall_on_exec :: bool
  mmap_stall_on_ldso :: bool

record hook_result =
  h_ret :: int
  h_calls :: "call list"

text \<open>
  Modelled from the spec: \<^verbatim>\<open>alloc_dynsec_event\<close> and the fillers \<^verbatim>\<open>fill_in_*\<close> are
  declared in \<^verbatim>\<open>factory.h\<close> and defined in a file that is not among the sources. The
  factory "allocates and populates an Event of the correct shape for a hook", carrying
  the report flags it is given; a filler "may return not applicable to instruct the
  adapter to discard the event", and it fails on the NULL event of a failed allocation.
\<close>

definition alloc_dynsec_event ::
  "('a hook_env_scheme) \<Rightarrow> dynsec_event_type \<Rightarrow> dynsec_hook_type \<Rightarrow> 16 word
     \<Rightarrow> dynsec_event option" where
  "alloc_dynsec_event env et ht rf =
     (if alloc_fails env then None
      else Some \<lparr>ev_event_type = et, ev_hook_type = ht, ev_report_flags = rf\<rparr>)"

definition fill_in :: "('a hook_env_scheme) \<Rightarrow> dynsec_event option \<Rightarrow> bool" where
  "fill_in env event = (event \<noteq> None \<and> fill_ok env)"

text \<open>The label \<^verbatim>\<open>out:\<close> with no event built.\<close>

definition out :: "int \<Rightarrow> hook_result" where
  "out ret = \<lparr>h_ret = ret, h_calls = []\<rparr>"

text \<open>
  The block that ends every stalling adapter of the newer hooks file: an event whose own
  flags carry STALL goes to the stall engine and, when that returns 0, its response
  becomes the hook's return value; any other event is enqueued and the value
  \<^verbatim>\<open>enqueue_nonstall_event\<close> returns is discarded.
\<close>

definition stall_or_enqueue :: "('a hook_env_scheme) \<Rightarrow> dynsec_event \<Rightarrow> int \<Rightarrow> hook_result" where
  "stall_or_enqueue env event ret =
     (if ev_report_flags event AND DYNSEC_REPORT_STALL \<noteq> 0 then
        let w = dynsec_wait_event_timeout env (Some event) (Some 0) in
        \<lparr>h_ret = (case w_response w of
                    Some response \<Rightarrow> if w_ret w = 0 then response else ret
                  | None \<Rightarrow> ret),
         h_calls = Dynsec_wait_event_timeout event # w_calls w\<rparr>
      else \<lparr>h_ret = ret, h_calls = [Enqueue_nonstall_event event]\<rparr>)"

text \<open>The filler's failure branch followed by that block.\<close>

definition fill_then_send :: "('a hook_env_scheme) \<Rightarrow> dynsec_event option \<Rightarrow> int \<Rightarrow> hook_result" where
  "fill_then_send env event ret =
     (if \<not> fill_in env event then \<lparr>h_ret = ret, h_calls = [Free_dynsec_event event]\<rparr>
      else case event of
             Some ev \<Rightarrow> stall_or_enqueue env ev ret
           | None \<Rightarrow> \<lparr>h_ret = ret, h_calls = [Free_dynsec_event event]\<rparr>)"

text \<open>The same for the adapters that never stall: the event is only enqueued.\<close>

definition fill_then_enqueue ::
  "('a hook_env_scheme) \<Rightarrow> dynsec_event option \<Rightarrow> bool \<Rightarrow> call list" where
  "fill_then_enqueue env event low_pri =
     (if \<not> fill_in env event then [Free_dynsec_event event]
      else case event of
             Some ev \<Rightarrow> if low_pri then [Enqueue_nonstall_event_low_pri ev]
                        else [Enqueue_nonstall_event ev]
           | None \<Rightarrow> [Free_dynsec_event event])"

text \<open>
  The flags of the adapters that may stall: AUDIT, and SELF for the agent's own tasks,
  STALL for everyone else.
\<close>

definition self_or_stall :: "task_struct \<Rightarrow> 16 word \<Rightarrow> 16 word" where
  "self_or_stall t report_flags =
     (if in_connected_tgid t then report_flags OR DYNSEC_REPORT_SELF
      else report_flags OR DYNSEC_REPORT_STALL)"

definition interesting_file_type :: "16 word \<Rightarrow> bool" where
  "interesting_file_type m = (S_ISLNK m \<or> S_ISREG m \<or> S_ISDIR m)"

definition dynsec_bprm_set_creds :: "('a hook_env_scheme) \<Rightarrow> linux_binprm option \<Rightarrow> hook_result" where
  "dynsec_bprm_set_creds env bprm =
     (let ret = 0; report_flags = DYNSEC_REPORT_AUDIT in
      if \<not> lsm_hooks_enabled env DYNSEC_HOOK_TYPE_EXEC then out ret
      else if bprm = None \<or> bprm_file (the bprm) = None then out ret
      else if \<not> hook_stall_tbl_enabled env then out ret
      else
        let report_flags = self_or_stall (current_task env) report_flags;
            event = alloc_dynsec_event env DYNSEC_EVENT_TYPE_EXEC DYNSEC_HOOK_TYPE_EXEC report_flags
        in if event = None then out ret
           else fill_then_send env event ret)"

text \<open>
  \<^verbatim>\<open>dynsec_inode_unlink\<close>, \<^verbatim>\<open>dynsec_inode_rmdir\<close> and \<^verbatim>\<open>dynsec_inode_rename\<close> differ
  only in the hook and event type.
\<close>

definition inode_remove_hook ::
  "('a hook_env_scheme) \<Rightarrow> dynsec_event_type \<Rightarrow> dynsec_hook_type \<Rightarrow> dentry \<Rightarrow> hook_result" where
  "inode_remove_hook env et ht dentry =
     (let ret = 0; report_flags = DYNSEC_REPORT_AUDIT in
      if \<not> lsm_hooks_enabled env ht then out ret
      else if \<not> hook_stall_tbl_enabled env then out ret
      else
        let report_flags = self_or_stall (current_task env) report_flags in
        case d_inode dentry of
          None \<Rightarrow> out ret
        | Some ino \<Rightarrow>
            if \<not> interesting_file_type (i_mode ino) then out ret
            else
              let event = alloc_dynsec_event env et ht report_flags in
              if event = None then out ret
              else fill_then_send env event ret)"

definition dynsec_inode_unlink :: "('a hook_env_scheme) \<Rightarrow> dentry \<Rightarrow> hook_result" where
  "dynsec_inode_unlink env dentry =
     inode_remove_hook env DYNSEC_EVENT_TYPE_UNLINK DYNSEC_HOOK_TYPE_UNLINK dentry"

definition dynsec_inode_rmdir :: "('a hook_env_scheme) \<Rightarrow> dentry \<Rightarrow> hook_result" where
  "dynsec_inode_rmdir env dentry =
     inode_remove_hook env DYNSEC_EVENT_TYPE_RMDIR DYNSEC_HOOK_TYPE_RMDIR dentry"

definition dynsec_inode_rename :: "('a hook_env_scheme) \<Rightarrow> dentry \<Rightarrow> hook_result" where
  "dynsec_inode_rename env old_dentry =
     inode_remove_hook env DYNSEC_EVENT_TYPE_RENAME DYNSEC_HOOK_TYPE_RENAME old_dentry"

text \<open>
  The redundancy filter of \<^verbatim>\<open>dynsec_inode_setattr\<close>: the mask is cut to mode, uid, gid
  and size, and a bit is dropped when the requested value is the inode's current one; the
  size bit is dropped for every nonzero requested size, and for a zero size when the
  inode is already empty.
\<close>

definition setattr_mask :: "iattr \<Rightarrow> inode \<Rightarrow> 32 word" where
  "setattr_mask attr ino =
     (let attr_mask = ia_valid attr AND (ATTR_MODE OR ATTR_UID OR ATTR_GID OR ATTR_SIZE);
          attr_mask = (if attr_mask AND ATTR_MODE \<noteq> 0 \<and> ia_mode attr = i_mode ino
                       then attr_mask AND NOT ATTR_MODE else attr_mask);
          attr_mask = (if attr_mask AND ATTR_UID \<noteq> 0 \<and> ia_uid attr = i_uid ino
                       then attr_mask AND NOT ATTR_UID else attr_mask);
          attr_mask = (if attr_mask AND ATTR_GID \<noteq> 0 \<and> ia_gid attr = i_gid ino
                       then attr_mask AND NOT ATTR_GID else attr_mask);
          attr_mask = (if attr_mask AND ATTR_SIZE \<noteq> 0 then
                         (if ia_size attr \<noteq> 0 then attr_mask AND NOT ATTR_SIZE
                          else if ia_size attr = i_size ino then attr_mask AND NOT ATTR_SIZE
                          else attr_mask)
                       else attr_mask)
      in attr_mask)"

definition dynsec_inode_setattr ::
  "('a hook_env_scheme) \<Rightarrow> dentry option \<Rightarrow> iattr option \<Rightarrow> hook_result" where
  "dynsec_inode_setattr env dentry attr =
     (let ret = 0; report_flags = DYNSEC_REPORT_AUDIT in
      if \<not> lsm_hooks_enabled env DYNSEC_HOOK_TYPE_SETATTR then out ret
      else if dentry = None \<or> d_inode (the dentry) = None \<or> attr = None then out ret
      else
        let ino = the (d_inode (the dentry)); a = the attr in
        if ia_valid a AND (ATTR_MODE OR ATTR_UID OR ATTR_GID OR ATTR_SIZE) = 0 then out ret
        else if setattr_mask a ino = 0 then out ret
        else if \<not> hook_stall_tbl_enabled env then out ret
        else
          let report_flags = self_or_stall (current_task env) report_flags;
              event = alloc_dynsec_event env DYNSEC_EVENT_TYPE_SETATTR DYNSEC_HOOK_TYPE_SETATTR
                        report_flags
          in fill_then_send env event ret)"

text \<open>
  \<^verbatim>\<open>dynsec_inode_mkdir\<close>, \<^verbatim>\<open>dynsec_inode_create\<close>, \<^verbatim>\<open>dynsec_inode_link\<close> and
  \<^verbatim>\<open>dynsec_inode_symlink\<close> have one body; none of them tests the allocation.
\<close>

definition inode_add_hook ::
  "('a hook_env_scheme) \<Rightarrow> dynsec_event_type \<Rightarrow> dynsec_hook_type \<Rightarrow> hook_result" where
  "inode_add_hook env et ht =
     (let ret = 0; report_flags = DYNSEC_REPORT_AUDIT in
      if \<not> lsm_hooks_enabled env ht then out ret
      else if \<not> hook_stall_tbl_enabled env then out ret
      else
        let report_flags = self_or_stall (current_task env) report_flags;
            event = alloc_dynsec_event env et ht report_flags
        in fill_then_send env event ret)"

definition dynsec_inode_mkdir :: "('a hook_env_scheme) \<Rightarrow> hook_result" where
  "dynsec_inode_mkdir env = inode_add_hook env DYNSEC_EVENT_TYPE_MKDIR DYNSEC_HOOK_TYPE_MKDIR"

definition dynsec_inode_create :: "('a hook_env_scheme) \<Rightarrow> hook_result" where
  "dynsec_inode_create env = inode_add_hook env DYNSEC_EVENT_TYPE_CREATE DYNSEC_HOOK_TYPE_CREATE"

definition dynsec_inode_link :: "('a hook_env_scheme) \<Rightarrow> hook_result" where
  "dynsec_inode_link env = inode_add_hook env DYNSEC_EVENT_TYPE_LINK DYNSEC_HOOK_TYPE_LINK"

definition dynsec_inode_symlink :: "('a hook_env_scheme) \<Rightarrow> hook_result" where
  "dynsec_inode_symlink env =
     inode_add_hook env DYNSEC_EVENT_TYPE_SYMLINK DYNSEC_HOOK_TYPE_SYMLINK"

definition is_regular_file :: "struct_file \<Rightarrow> bool" where
  "is_regular_file f =
     (case f_path_dentry f of
        None \<Rightarrow> False
      | Some d \<Rightarrow> (case d_inode d of None \<Rightarrow> False | Some ino \<Rightarrow> S_ISREG (i_mode ino)))"

text \<open>
  \<^verbatim>\<open>dynsec_file_open\<close>. The two clearings of STALL come before STALL is ever set, and the
  plain assignment \<^verbatim>\<open>report_flags = DYNSEC_REPORT_STALL\<close> then replaces the flags, AUDIT
  included.
\<close>

definition dynsec_file_open :: "('a hook_env_scheme) \<Rightarrow> struct_file \<Rightarrow> hook_result" where
  "dynsec_file_open env f =
     (let ret = 0; report_flags = DYNSEC_REPORT_AUDIT in
      if \<not> lsm_hooks_enabled env DYNSEC_HOOK_TYPE_OPEN then out ret
      else
        let report_flags = (if f_mode f AND FMODE_STREAM \<noteq> 0
                            then report_flags AND NOT DYNSEC_REPORT_STALL else report_flags);
            report_flags = (if f_mode f AND FMODE_NONOTIFY \<noteq> 0 \<and> f_mode f AND FMODE_WRITE = 0
                            then report_flags AND NOT DYNSEC_REPORT_STALL else report_flags)
        in
          if \<not> is_regular_file f then out ret
          else
            let report_flags = DYNSEC_REPORT_STALL in
            if \<not> hook_stall_tbl_enabled env then out ret
            else
              let report_flags = (if in_connected_tgid (current_task env)
                                  then (report_flags OR DYNSEC_REPORT_SELF)
                                         AND NOT DYNSEC_REPORT_STALL
                                  else report_flags);
                  event = alloc_dynsec_event env DYNSEC_EVENT_TYPE_OPEN DYNSEC_HOOK_TYPE_OPEN
                            report_flags
              in fill_then_send env event ret)"

text \<open>The flags of the adapters that never stall: AUDIT, and SELF for the agent.\<close>

definition audit_self :: "bool \<Rightarrow> 16 word" where
  "audit_self connected =
     (if connected then DYNSEC_REPORT_AUDIT OR DYNSEC_REPORT_SELF else DYNSEC_REPORT_AUDIT)"

definition dynsec_file_free_security :: "('a hook_env_scheme) \<Rightarrow> struct_file \<Rightarrow> call list" where
  "dynsec_file_free_security env f =
     (if \<not> lsm_hooks_enabled env DYNSEC_HOOK_TYPE_CLOSE then []
      else if f_mode f AND FMODE_STREAM \<noteq> 0 then []
      else if f_mode f AND FMODE_NONOTIFY \<noteq> 0 \<and> f_mode f AND FMODE_WRITE = 0 then []
      else if \<not> is_regular_file f then []
      else if \<not> hook_stall_tbl_enabled env then []
      else
        let report_flags = audit_self (in_connected_tgid (current_task env));
            event = alloc_dynsec_event env DYNSEC_EVENT_TYPE_CLOSE DYNSEC_HOOK_TYPE_CLOSE
                      report_flags
        in fill_then_enqueue env event False)"

definition dynsec_ptrace_traceme :: "('a hook_env_scheme) \<Rightarrow> hook_result" where
  "dynsec_ptrace_traceme env =
     (let ret = 0 in
      if \<not> lsm_hooks_enabled env DYNSEC_HOOK_TYPE_PTRACE then out ret
      else if \<not> hook_stall_tbl_enabled env then out ret
      else
        let report_flags = audit_self (in_connected_tgid (current_task env));
            event = alloc_dynsec_event env DYNSEC_EVENT_TYPE_PTRACE DYNSEC_HOOK_TYPE_PTRACE
                      report_flags
        in \<lparr>h_ret = ret, h_calls = fill_then_enqueue env event False\<rparr>)"

definition dynsec_ptrace_access_check ::
  "('a hook_env_scheme) \<Rightarrow> task_struct \<Rightarrow> 32 word \<Rightarrow> hook_result" where
  "dynsec_ptrace_access_check env child ptrace_mode =
     (let ret = 0 in
      if \<not> lsm_hooks_enabled env DYNSEC_HOOK_TYPE_PTRACE then out ret
      else if ptrace_mode AND PTRACE_MODE_ATTACH = 0 then out ret
      else if \<not> hook_stall_tbl_enabled env then out ret
      else if \<not> in_connected_tgid (current_task env) \<and> in_connected_tgid child then out ret
      else
        let report_flags = audit_self (in_connected_tgid (current_task env));
            event = alloc_dynsec_event env DYNSEC_EVENT_TYPE_PTRACE DYNSEC_HOOK_TYPE_PTRACE
                      report_flags
        in \<lparr>h_ret = ret, h_calls = fill_then_enqueue env event False\<rparr>)"

definition dynsec_task_kill :: "('a hook_env_scheme) \<Rightarrow> int \<Rightarrow> hook_result" where
  "dynsec_task_kill env sig =
     (let ret = 0 in
      if \<not> lsm_hooks_enabled env DYNSEC_HOOK_TYPE_SIGNAL then out ret
      else if sig = 0 then out ret
      else if \<not> hook_stall_tbl_enabled env then out ret
      else
        let report_flags = audit_self (in_connected_tgid (current_task env));
            event = alloc_dynsec_event env DYNSEC_EVENT_TYPE_SIGNAL DYNSEC_HOOK_TYPE_SIGNAL
                      report_flags
        in \<lparr>h_ret = ret, h_calls = fill_then_enqueue env event False\<rparr>)"

definition dynsec_sched_process_fork_tp ::
  "('a hook_env_scheme) \<Rightarrow> task_struct \<Rightarrow> task_struct option \<Rightarrow> call list" where
  "dynsec_sched_process_fork_tp env parent child =
     (case child of
        None \<Rightarrow> []
      | Some c \<Rightarrow>
          if tgid c \<noteq> pid c then []
          else if \<not> hook_stall_tbl_enabled env then []
          else
            let report_flags = audit_self (in_connected_tgid parent);
                event = alloc_dynsec_event env DYNSEC_EVENT_TYPE_CLONE DYNSEC_TP_HOOK_TYPE_CLONE
                          report_flags
            in fill_then_enqueue env event False)"

text \<open>
  \<^verbatim>\<open>__dynsec_task_exit\<close> never asks whether the task is the agent's: its flags are AUDIT
  alone.
\<close>

definition dynsec_task_exit ::
  "('a hook_env_scheme) \<Rightarrow> task_struct option \<Rightarrow> dynsec_hook_type \<Rightarrow> call list" where
  "dynsec_task_exit env t exit_hook_type =
     (let report_flags = DYNSEC_REPORT_AUDIT in
      case t of
        None \<Rightarrow> []
      | Some tsk \<Rightarrow>
          if tgid tsk \<noteq> pid tsk then []
          else if \<not> hook_stall_tbl_enabled env then []
          else
            let event = alloc_dynsec_event env DYNSEC_EVENT_TYPE_EXIT exit_hook_type report_flags
            in fill_then_enqueue env event (exit_hook_type = DYNSEC_TP_HOOK_TYPE_EXIT))"

definition dynsec_task_free :: "('a hook_env_scheme) \<Rightarrow> task_struct option \<Rightarrow> call list" where
  "dynsec_task_free env t = dynsec_task_exit env t DYNSEC_HOOK_TYPE_TASK_FREE"

definition dynsec_sched_process_exit_tp ::
  "('a hook_env_scheme) \<Rightarrow> task_struct option \<Rightarrow> call list" where
  "dynsec_sched_process_exit_tp env t = dynsec_task_exit env t DYNSEC_TP_HOOK_TYPE_EXIT"

definition dynsec_sched_process_free_tp ::
  "('a hook_env_scheme) \<Rightarrow> task_struct option \<Rightarrow> call list" where
  "dynsec_sched_process_free_tp env t = dynsec_task_exit env t DYNSEC_TP_HOOK_TYPE_TASK_FREE"

text \<open>
  The flags \<^verbatim>\<open>dynsec_mmap_file\<close> computes before it asks whether the task is the agent's,
  with the priority of the event; \<open>None\<close> is the \<^verbatim>\<open>goto out\<close> of an unreported mapping.
\<close>

definition mmap_policy ::
  "('a hook_env_scheme) \<Rightarrow> struct_file option \<Rightarrow> 64 word \<Rightarrow> (16 word \<times> bool) option" where
  "mmap_policy env f flags =
     (let report_flags = DYNSEC_REPORT_AUDIT; is_low_priority = True in
      if in_execve (current_task env)
         \<or> (f \<noteq> None \<and> f_mode (the f) AND FMODE_EXEC = FMODE_EXEC) then
        let exec_flags = flags AND (MAP_DENYWRITE OR MAP_EXECUTABLE) in
        if mmap_stall_on_exec env \<and> exec_flags AND MAP_EXECUTABLE \<noteq> 0
        then Some (report_flags OR DYNSEC_REPORT_STALL, False)
        else if mmap_stall_on_ldso env
        then Some (report_flags OR DYNSEC_REPORT_STALL, False)
        else Some (report_flags, False)
      else
        if mmap_stall_misc env then Some (report_flags OR DYNSEC_REPORT_STALL, is_low_priority)
        else if \<not> mmap_report_misc env then None
        else Some (report_flags, is_low_priority))"

definition dynsec_mmap_file ::
  "('a hook_env_scheme) \<Rightarrow> struct_file option \<Rightarrow> 64 word \<Rightarrow> 64 word \<Rightarrow> hook_result" where
  "dynsec_mmap_file env f prot flags =
     (let ret = 0 in
      if prot AND PROT_EXEC = 0 then out ret
      else if \<not> hook_stall_tbl_enabled env then out ret
      else
        case mmap_policy env f flags of
          None \<Rightarrow> out ret
        | Some (report_flags, is_low_priority) \<Rightarrow>
            let report_flags = (if in_connected_tgid (current_task env)
                                then (report_flags OR DYNSEC_REPORT_SELF)
                                       AND NOT DYNSEC_REPORT_STALL
                                else report_flags);
                event = alloc_dynsec_event env DYNSEC_EVENT_TYPE_MMAP DYNSEC_HOOK_TYPE_MMAP
                          report_flags
            in
              if \<not> fill_in env event then \<lparr>h_ret = ret, h_calls = [Free_dynsec_event event]\<rparr>
              else
                case event of
                  None \<Rightarrow> \<lparr>h_ret = ret, h_calls = [Free_dynsec_event event]\<rparr>
                | Some ev \<Rightarrow>
                    if ev_report_flags ev AND DYNSEC_REPORT_STALL \<noteq> 0
                    then stall_or_enqueue env ev ret
                    else if is_low_priority
                    then \<lparr>h_ret = ret, h_calls = [Enqueue_nonstall_event_low_pri ev]\<rparr>
                    else \<lparr>h_ret = ret, h_calls = [Enqueue_nonstall_event ev]\<rparr>)"

definition dynsec_wake_up_new_task :: "('a hook_env_scheme) \<Rightarrow> task_struct option \<Rightarrow> hook_result" where
  "dynsec_wake_up_new_task env p =
     (case p of
        None \<Rightarrow> out 0
      | Some tsk \<Rightarrow>
          if tgid tsk \<noteq> pid tsk then out 0
          else if \<not> hook_stall_tbl_enabled env then out 0
          else
            let report_flags = audit_self (real_parent_in_connected_tgid tsk);
                event = alloc_dynsec_event env DYNSEC_EVENT_TYPE_CLONE DYNSEC_TP_HOOK_TYPE_CLONE
                          report_flags
            in \<lparr>h_ret = 0, h_calls = fill_then_enqueue env event True\<rparr>)"

subsection \<open>The older hooks file\<close>

text \<open>
  \<^verbatim>\<open>hooks.c\<close> holds an earlier text of the first four adapters. It has no enabled-hooks
  mask, tests the local \<^verbatim>\<open>report_flags\<close> rather than the event's, and frees the event
  when \<^verbatim>\<open>enqueue_nonstall_event\<close> returns 0.
\<close>

definition send_hooks_c ::
  "('a hook_env_scheme) \<Rightarrow> 16 word \<Rightarrow> dynsec_event \<Rightarrow> int \<Rightarrow> hook_result" where
  "send_hooks_c env report_flags event ret =
     (if fill_in env (Some event) then
        if report_flags AND DYNSEC_REPORT_STALL \<noteq> 0 then
          let w = dynsec_wait_event_timeout env (Some event) (Some 0) in
          \<lparr>h_ret = (case w_response w of
                      Some response \<Rightarrow> if w_ret w = 0 then response else ret
                    | None \<Rightarrow> ret),
           h_calls = Dynsec_wait_event_timeout event # w_calls w\<rparr>
        else
          let size = enqueue_ret env in
          if size = 0
          then \<lparr>h_ret = ret,
                h_calls = [Enqueue_nonstall_event event, Free_dynsec_event (Some event)]\<rparr>
          else \<lparr>h_ret = ret, h_calls = [Enqueue_nonstall_event event]\<rparr>
      else \<lparr>h_ret = ret, h_calls = [Free_dynsec_event (Some event)]\<rparr>)"

definition dynsec_bprm_set_creds_hooks_c ::
  "('a hook_env_scheme) \<Rightarrow> linux_binprm option \<Rightarrow> hook_result" where
  "dynsec_bprm_set_creds_hooks_c env bprm =
     (let ret = 0; report_flags = DYNSEC_REPORT_AUDIT in
      if bprm = None \<or> bprm_file (the bprm) = None then out ret
      else if \<not> hook_stall_tbl_enabled env then out ret
      else
        let report_flags = self_or_stall (current_task env) report_flags in
        case alloc_dynsec_event env DYNSEC_EVENT_TYPE_EXEC DYNSEC_HOOK_TYPE_EXEC report_flags of
          None \<Rightarrow> out ret
        | Some event \<Rightarrow> send_hooks_c env report_flags event ret)"

definition inode_remove_hook_hooks_c ::
  "('a hook_env_scheme) \<Rightarrow> dynsec_event_type \<Rightarrow> dynsec_hook_type \<Rightarrow> dentry \<Rightarrow> hook_result" where
  "inode_remove_hook_hooks_c env et ht dentry =
     (let ret = 0; report_flags = DYNSEC_REPORT_AUDIT in
      if \<not> hook_stall_tbl_enabled env then out ret
      else
        let report_flags = self_or_stall (current_task env) report_flags in
        case d_inode dentry of
          None \<Rightarrow> out ret
        | Some ino \<Rightarrow>
            if \<not> interesting_file_type (i_mode ino) then out ret
            else
              case alloc_dynsec_event env et ht report_flags of
                None \<Rightarrow> out ret
              | Some event \<Rightarrow> send_hooks_c env report_flags event ret)"

definition dynsec_inode_unlink_hooks_c :: "('a hook_env_scheme) \<Rightarrow> dentry \<Rightarrow> hook_result" where
  "dynsec_inode_unlink_hooks_c env dentry =
     inode_remove_hook_hooks_c env DYNSEC_EVENT_TYPE_UNLINK DYNSEC_HOOK_TYPE_UNLINK dentry"

definition dynsec_inode_rmdir_hooks_c :: "('a hook_env_scheme) \<Rightarrow> dentry \<Rightarrow> hook_result" where
  "dynsec_inode_rmdir_hooks_c env dentry =
     inode_remove_hook_hooks_c env DYNSEC_EVENT_TYPE_RMDIR DYNSEC_HOOK_TYPE_RMDIR dentry"

definition dynsec_inode_rename_hooks_c :: "('a hook_env_scheme) \<Rightarrow> dentry \<Rightarrow> hook_result" where
  "dynsec_inode_rename_hooks_c env old_dentry =
     inode_remove_hook_hooks_c env DYNSEC_EVENT_TYPE_RENAME DYNSEC_HOOK_TYPE_RENAME old_dentry"

subsection \<open>One entry point for all adapters\<close>

text \<open>
  The operating system enters the module through one of the adapters; \<open>hook_call\<close> names
  the adapter with the arguments it reads. The first group are the adapters of the newer
  hooks file, the second the four of \<^verbatim>\<open>hooks.c\<close>.
\<close>

datatype hook_call =
    Bprm_set_creds "linux_binprm option"
  | Inode_unlink dentry
  | Inode_rmdir dentry
  | Inode_rename dentry
  | Inode_setattr "dentry option" "iattr option"
  | Inode_mkdir
  | Inode_create
  | Inode_link
  | Inode_symlink
  | File_open struct_file
  | File_free_security struct_file
  | Ptrace_traceme
  | Ptrace_access_check task_struct "32 word"
  | Task_kill int
  | Sched_process_fork_tp task_struct "task_struct option"
  | Task_free "task_struct option"
  | Sched_process_exit_tp "task_struct option"
  | Sched_process_free_tp "task_struct option"
  | Mmap_file "struct_file option" "64 word" "64 word"
  | Wake_up_new_task "task_struct option"
  | Bprm_set_creds_hooks_c "linux_binprm option"
  | Inode_unlink_hooks_c dentry
  | Inode_rmdir_hooks_c dentry
  | Inode_rename_hooks_c dentry

fun run_hook :: "('a hook_env_scheme) \<Rightarrow> hook_call \<Rightarrow> hook_result" where
  "run_hook env (Bprm_set_creds bprm) = dynsec_bprm_set_creds env bprm"
| "run_hook env (Inode_unlink d) = dynsec_inode_unlink env d"
| "run_hook env (Inode_rmdir d) = dynsec_inode_rmdir env d"
| "run_hook env (Inode_rename d) = dynsec_inode_rename env d"
| "run_hook env (Inode_setattr d a) = dynsec_inode_setattr env d a"
| "run_hook env Inode_mkdir = dynsec_inode_mkdir env"
| "run_hook env Inode_create = dynsec_inode_create env"
| "run_hook env Inode_link = dynsec_inode_link env"
| "run_hook env Inode_symlink = dynsec_inode_symlink env"
| "run_hook env (File_open f) = dynsec_file_open env f"
| "run_hook env (File_free_security f) = \<lparr>h_ret = 0, h_calls = dynsec_file_free_security env f\<rparr>"
| "run_hook env Ptrace_traceme = dynsec_ptrace_traceme env"
| "run_hook env (Ptrace_access_check child m) = dynsec_ptrace_access_check env child m"
| "run_hook env (Task_kill sig) = dynsec_task_kill env sig"
| "run_hook env (Sched_process_fork_tp parent child) =
     \<lparr>h_ret = 0, h_calls = dynsec_sched_process_fork_tp env parent child\<rparr>"
| "run_hook env (Task_free t) = \<lparr>h_ret = 0, h_calls = dynsec_task_free env t\<rparr>"
| "run_hook env (Sched_process_exit_tp t) =
     \<lparr>h_ret = 0, h_calls = dynsec_sched_process_exit_tp env t\<rparr>"
| "run_hook env (Sched_process_free_tp t) =
     \<lparr>h_ret = 0, h_calls = dynsec_sched_process_free_tp env t\<rparr>"
| "run_hook env (Mmap_file f prot flags) = dynsec_mmap_file env f prot flags"
| "run_hook env (Wake_up_new_task p) = dynsec_wake_up_new_task env p"
| "run_hook env (Bprm_set_creds_hooks_c bprm) = dynsec_bprm_set_creds_hooks_c env bprm"
| "run_hook env (Inode_unlink_hooks_c d) = dynsec_inode_unlink_hooks_c env d"
| "run_hook env (Inode_rmdir_hooks_c d) = dynsec_inode_rmdir_hooks_c env d"
| "run_hook env (Inode_rename_hooks_c d) = dynsec_inode_rename_hooks_c env d"







definition has_flag :: "16 word \<Rightarrow> dynsec_event \<Rightarrow> bool" where
  "has_flag flag e = (ev_report_flags e AND flag \<noteq> 0)"




fun is_hooks_c :: "hook_call \<Rightarrow> bool" where
  "is_hooks_c (Bprm_set_creds_hooks_c b) = True"
| "is_hooks_c (Inode_unlink_hooks_c d) = True"
| "is_hooks_c (Inode_rmdir_hooks_c d) = True"
| "is_hooks_c (Inode_rename_hooks_c d) = True"
| "is_hooks_c c = False"

section \<open>Vocabulary for the properties\<close>

text \<open>
  A pass through \<^verbatim>\<open>retry:\<close> is cut short when one of the three switches tells the waiter
  to give up; it continues the stall when the waiter was woken with CONTINUE.
\<close>

definition round_disabled :: "round \<Rightarrow> bool" where
  "round_disabled r =
     (\<not> r_stall_tbl_enabled r \<or> \<not> r_stall_mode_enabled r \<or> r_bypass_mode_enabled r)"

definition continuing :: "round \<Rightarrow> bool" where
  "continuing r =
     (r_stall_tbl_enabled r \<and> r_stall_mode_enabled r \<and> \<not> r_bypass_mode_enabled r
      \<and> 0 < r_wait_ret r \<and> r_response r = DYNSEC_RESPONSE_CONTINUE)"

text \<open>The timeout a CONTINUE response grants to the next wait.\<close>

definition next_timeout :: "('a stall_env_scheme) \<Rightarrow> round \<Rightarrow> nat" where
  "next_timeout env r =
     (if r_stall_timeout r \<noteq> 0 then msecs_to_jiffies env (r_stall_timeout r)
      else msecs_to_jiffies env (r_get_continue_timeout r))"

text \<open>
  The pass in which the loop ends when it is entered with \<open>c\<close> continuations counted: the
  first from \<open>c\<close> on that does not continue, or the one that takes the count to the cap.
\<close>

function exit_round :: "('a stall_env_scheme) \<Rightarrow> nat \<Rightarrow> nat" where
  "exit_round env c =
     (if continuing (rounds env c) \<and> Suc c < MAX_CONTINUE_RESPONSES
      then exit_round env (Suc c) else c)"
  by pat_completeness auto
termination
  by (relation "measure (\<lambda>(env, c). MAX_CONTINUE_RESPONSES - c)") auto

declare exit_round.simps [simp del]

text \<open>The verdict a final response maps to.\<close>

definition verdict_of :: "int \<Rightarrow> int" where
  "verdict_of response = (if response = DYNSEC_RESPONSE_EPERM then - EPERM else 0)"

text \<open>The configured default response.\<close>

definition default_response :: "('a wait_env_scheme) \<Rightarrow> int" where
  "default_response env =
     (if deny_on_timeout_enabled env then DYNSEC_RESPONSE_EPERM else DYNSEC_RESPONSE_ALLOW)"

text \<open>The event reaches \<^verbatim>\<open>do_stall_interruptible\<close>: it is stalled on a fresh entry.\<close>

definition entry_inserted :: "('a wait_env_scheme) \<Rightarrow> dynsec_event \<Rightarrow> bool" where
  "entry_inserted env ev =
     (stall_tbl_enabled env
      \<and> (ev_report_flags ev AND DYNSEC_REPORT_IGNORE = 0 \<or> \<not> ignore_mode_enabled env)
      \<and> \<not> IS_ERR (stall_tbl_insert_ptr env) \<and> stall_tbl_insert_ptr env \<noteq> 0)"

text \<open>
  The pass that ends the loop decides the outcome: the value \<^verbatim>\<open>do_stall_interruptible\<close>
  returns, and the response it maps (the default after a timeout or an interrupt, else
  the response the waiter was woken with).
\<close>

definition final_ret :: "round \<Rightarrow> int" where
  "final_ret r =
     (if round_disabled r then - ECHILD
      else if r_wait_ret r \<le> 0 then 0
      else if r_response r = DYNSEC_RESPONSE_CONTINUE then - ECHILD else 0)"

definition final_response :: "int \<Rightarrow> round \<Rightarrow> int" where
  "final_response d r = (if r_wait_ret r \<le> 0 then d else r_response r)"

text \<open>
  The timeouts granted from a pass \<open>c\<close> entered with timeout \<open>t\<close>: \<open>t\<close>, then the timeout of
  each continuation; a pass cut short by a switch does not wait.
\<close>

definition granted :: "('a stall_env_scheme) \<Rightarrow> nat \<Rightarrow> nat \<Rightarrow> nat list" where
  "granted env t c =
     (let k = exit_round env c;
          ws = t # map (\<lambda>j. next_timeout env (rounds env j)) [c..<k]
      in if round_disabled (rounds env k) then butlast ws else ws)"

text \<open>The waits one call of \<^verbatim>\<open>do_stall_interruptible\<close> performs, as their timeouts.\<close>

definition waits_of_stall :: "('a stall_env_scheme) \<Rightarrow> stall_state \<Rightarrow> nat list" where
  "waits_of_stall env s =
     drop (length (st_waits s)) (st_waits (snd (do_stall_interruptible env s)))"

text \<open>
  The invariant the spec gives for the timeouts of a configuration, relative to the three
  limits.
\<close>

definition config_ok :: "limits \<Rightarrow> dynsec_config \<Rightarrow> bool" where
  "config_ok lim cfg =
     (MIN_WAIT_TIMEOUT_MS lim \<le> stall_timeout cfg
      \<and> stall_timeout cfg \<le> MAX_WAIT_TIMEOUT_MS lim
      \<and> stall_timeout cfg \<le> stall_timeout_continue cfg
      \<and> stall_timeout_continue cfg \<le> MAX_EXTENDED_TIMEOUT_MS lim)"

text \<open>The bits of a control request that select a recognised setting.\<close>

definition recognized_flags :: "dynsec_stall_ioc_hdr \<Rightarrow> 64 word" where
  "recognized_flags hdr =
     hdr_flags hdr AND
       (DYNSEC_STALL_MODE_SET OR DYNSEC_STALL_DEFAULT_TIMEOUT
        OR DYNSEC_STALL_CONTINUE_TIMEOUT OR DYNSEC_STALL_DEFAULT_DENY)"





text \<open>
  The two ways an adapter treats the event it enqueues: the newer hooks file hands it
  over and does nothing more; \<^verbatim>\<open>hooks.c\<close> frees it when the queue returned 0.
\<close>

definition enqueue_unchecked :: "hook_result \<Rightarrow> bool" where
  "enqueue_unchecked r =
     (\<forall>e. Enqueue_nonstall_event e \<in> set (h_calls r)
            \<or> Enqueue_nonstall_event_low_pri e \<in> set (h_calls r) \<longrightarrow>
          h_calls r = [Enqueue_nonstall_event e]
          \<or> h_calls r = [Enqueue_nonstall_event_low_pri e])"

definition enqueue_checked :: "32 word \<Rightarrow> hook_result \<Rightarrow> bool" where
  "enqueue_checked ret r =
     (\<forall>e. Enqueue_nonstall_event e \<in> set (h_calls r) \<longrightarrow>
          h_calls r = (if ret = 0
                       then [Enqueue_nonstall_event e, Free_dynsec_event (Some e)]
                       else [Enqueue_nonstall_event e]))"


section \<open>Concrete surroundings\<close>

text \<open>
  A process outside the agent, a regular file, and surroundings in which everything is
  switched on, allocation and filling succeed, the insert returns a valid pointer, and
  every wait times out. The variants below change one thing each.
\<close>

definition sample_task :: task_struct where
  "sample_task =
     \<lparr>tgid = 42, pid = 42, in_execve = False, in_connected_tgid = False,
      real_parent_in_connected_tgid = False\<rparr>"

definition agent_task :: task_struct where
  "agent_task = sample_task\<lparr>in_connected_tgid := True\<rparr>"

definition timeout_round :: round where
  "timeout_round =
     \<lparr>r_stall_tbl_enabled = True, r_stall_mode_enabled = True, r_bypass_mode_enabled = False,
      r_wait_ret = 0, r_response = 0, r_stall_timeout = 0, r_get_continue_timeout = 5000\<rparr>"

definition continue_round :: round where
  "continue_round = timeout_round\<lparr>r_wait_ret := 1, r_response := DYNSEC_RESPONSE_CONTINUE\<rparr>"

definition deny_round :: round where
  "deny_round = timeout_round\<lparr>r_wait_ret := 1, r_response := DYNSEC_RESPONSE_EPERM\<rparr>"

definition stall_mode_off_round :: round where
  "stall_mode_off_round = timeout_round\<lparr>r_stall_mode_enabled := False\<rparr>"

definition sample_env :: hook_env where
  "sample_env =
     \<lparr>msecs_to_jiffies = (\<lambda>ms. ms), get_wait_timeout = 1000, rounds = (\<lambda>k. timeout_round),
      stall_tbl_enabled = True, ignore_mode_enabled = False, stall_tbl_insert_ptr = 0x1000,
      deny_on_timeout_enabled = False,
      lsm_hooks_enabled = (\<lambda>h. True), hook_stall_tbl_enabled = True,
      current_task = sample_task, alloc_fails = False, fill_ok = True, enqueue_ret = 0,
      mmap_report_misc = True, mmap_stall_misc = False, mmap_stall_on_exec = True,
      mmap_stall_on_ldso = True\<rparr>"

definition continue_env :: hook_env where
  "continue_env = sample_env\<lparr>rounds := (\<lambda>k. continue_round), deny_on_timeout_enabled := True\<rparr>"

definition deny_env :: hook_env where
  "deny_env = sample_env\<lparr>rounds := (\<lambda>k. deny_round)\<rparr>"

definition stall_mode_off_env :: hook_env where
  "stall_mode_off_env = sample_env\<lparr>rounds := (\<lambda>k. stall_mode_off_round)\<rparr>"

definition agent_env :: hook_env where
  "agent_env = sample_env\<lparr>current_task := agent_task\<rparr>"

definition stalling_event :: dynsec_event where
  "stalling_event =
     \<lparr>ev_event_type = DYNSEC_EVENT_TYPE_EXEC, ev_hook_type = DYNSEC_HOOK_TYPE_EXEC,
      ev_report_flags = DYNSEC_REPORT_AUDIT OR DYNSEC_REPORT_STALL\<rparr>"

definition regular_inode :: inode where
  "regular_inode = \<lparr>i_mode = 0x81A4, i_uid = 1000, i_gid = 1000, i_size = 4096\<rparr>"

definition regular_file :: struct_file where
  "regular_file = \<lparr>f_mode = 0x1, f_path_dentry = Some \<lparr>d_inode = Some regular_inode\<rparr>\<rparr>"

definition sample_bprm :: linux_binprm where
  "sample_bprm = \<lparr>bprm_file = Some regular_file\<rparr>"

definition sample_state :: stall_state where
  "sample_state =
     \<lparr>st_response = 0,
      st_entry = \<lparr>entry_mode = DYNSEC_STALL_MODE_STALL, entry_response = DYNSEC_RESPONSE_ALLOW,
                  entry_stall_timeout = 0\<rparr>,
      st_calls = [], st_waits = []\<rparr>"

text \<open>
  Limits, a configuration that satisfies the invariant, and two control requests: one
  that flips every setting, one that only raises the stall timeout.
\<close>

definition sample_limits :: limits where
  "sample_limits =
     \<lparr>MIN_WAIT_TIMEOUT_MS = 1, MAX_WAIT_TIMEOUT_MS = 15000, MAX_EXTENDED_TIMEOUT_MS = 60000\<rparr>"

definition sample_config :: dynsec_config where
  "sample_config =
     \<lparr>stall_mode = DEFAULT_ENABLED, stall_timeout = 1000, stall_timeout_continue = 2000,
      stall_timeout_deny = DEFAULT_DISABLED\<rparr>"

definition change_all_hdr :: dynsec_stall_ioc_hdr where
  "change_all_hdr =
     \<lparr>hdr_flags = 0xF, hdr_stall_mode = DEFAULT_DISABLED, hdr_stall_timeout = 3000,
      hdr_stall_timeout_continue = 9000, hdr_stall_timeout_deny = DEFAULT_ENABLED\<rparr>"

definition raise_timeout_hdr :: dynsec_stall_ioc_hdr where
  "raise_timeout_hdr =
     \<lparr>hdr_flags = DYNSEC_STALL_DEFAULT_TIMEOUT, hdr_stall_mode = DEFAULT_ENABLED,
      hdr_stall_timeout = 5000, hdr_stall_timeout_continue = 0,
      hdr_stall_timeout_deny = DEFAULT_DISABLED\<rparr>"

text \<open>
  Two attribute changes on the regular inode: a chmod to the mode it already has, and a
  truncation to length zero.
\<close>

definition chmod_same_attr :: iattr where
  "chmod_same_attr =
     \<lparr>ia_valid = ATTR_MODE, ia_mode = 0x81A4, ia_uid = 0, ia_gid = 0, ia_size = 0\<rparr>"

definition truncate_attr :: iattr where
  "truncate_attr =
     \<lparr>ia_valid = ATTR_SIZE, ia_mode = 0, ia_uid = 0, ia_gid = 0, ia_size = 0\<rparr>"




definition agent_exec_event :: dynsec_event where
  "agent_exec_event =
     \<lparr>ev_event_type = DYNSEC_EVENT_TYPE_EXEC, ev_hook_type = DYNSEC_HOOK_TYPE_EXEC,
      ev_report_flags = DYNSEC_REPORT_AUDIT OR DYNSEC_REPORT_SELF\<rparr>"

section \<open>The loop of the stall engine\<close>

lemma do_stall_retry_disabled:
  "round_disabled (rounds env c) \<Longrightarrow> do_stall_retry env d t c s = (- ECHILD, s)"
  by (subst do_stall_retry.simps) (auto simp: round_disabled_def Let_def)

lemma do_stall_retry_continue:
  "continuing (rounds env c) \<Longrightarrow> Suc c < MAX_CONTINUE_RESPONSES \<Longrightarrow>
   do_stall_retry env d t c s =
     do_stall_retry env d (next_timeout env (rounds env c)) (Suc c)
       (s\<lparr>st_waits := st_waits s @ [t],
          st_entry := \<lparr>entry_mode = DYNSEC_STALL_MODE_STALL,
                       entry_response = r_response (rounds env c),
                       entry_stall_timeout = r_stall_timeout (rounds env c)\<rparr>\<rparr>)"
  by (subst do_stall_retry.simps) (auto simp: continuing_def next_timeout_def Let_def)

lemma do_stall_retry_exit:
  "\<not> round_disabled (rounds env c) \<Longrightarrow>
   \<not> (continuing (rounds env c) \<and> Suc c < MAX_CONTINUE_RESPONSES) \<Longrightarrow>
   do_stall_retry env d t c s =
     (let r = rounds env c in
      if r_wait_ret r \<le> 0 then do_stall_finish d 0 (s\<lparr>st_waits := st_waits s @ [t]\<rparr>)
      else do_stall_finish (r_response r)
             (if r_response r = DYNSEC_RESPONSE_CONTINUE then - ECHILD else 0)
             (s\<lparr>st_waits := st_waits s @ [t],
                st_entry := \<lparr>entry_mode = DYNSEC_STALL_MODE_STALL,
                             entry_response = r_response r,
                             entry_stall_timeout = r_stall_timeout r\<rparr>\<rparr>))"
  by (subst do_stall_retry.simps) (auto simp: continuing_def round_disabled_def Let_def)

lemma exit_round_step:
  "continuing (rounds env c) \<and> Suc c < MAX_CONTINUE_RESPONSES \<Longrightarrow>
   exit_round env c = exit_round env (Suc c)"
  by (subst exit_round.simps) simp

lemma exit_round_stop:
  "\<not> (continuing (rounds env c) \<and> Suc c < MAX_CONTINUE_RESPONSES) \<Longrightarrow> exit_round env c = c"
  by (subst exit_round.simps) auto

lemma exit_round_ge: "c \<le> exit_round env c"
proof (induction env c rule: exit_round.induct)
  case (1 env c)
  show ?case
  proof (cases "continuing (rounds env c) \<and> Suc c < MAX_CONTINUE_RESPONSES")
    case True
    with "1.IH" have "Suc c \<le> exit_round env (Suc c)" by simp
    with True show ?thesis by (simp add: exit_round_step)
  next
    case False
    then show ?thesis by (simp add: exit_round_stop)
  qed
qed

lemma exit_round_lt: "c < MAX_CONTINUE_RESPONSES \<Longrightarrow> exit_round env c < MAX_CONTINUE_RESPONSES"
proof (induction env c rule: exit_round.induct)
  case (1 env c)
  show ?case
  proof (cases "continuing (rounds env c) \<and> Suc c < MAX_CONTINUE_RESPONSES")
    case True
    with "1.IH" have "exit_round env (Suc c) < MAX_CONTINUE_RESPONSES" by simp
    with True show ?thesis by (simp add: exit_round_step)
  next
    case False
    with "1.prems" show ?thesis by (simp add: exit_round_stop)
  qed
qed

lemma exit_round_before:
  "c \<le> j \<Longrightarrow> j < exit_round env c \<Longrightarrow> continuing (rounds env j)"
proof (induction env c rule: exit_round.induct)
  case (1 env c)
  show ?case
  proof (cases "continuing (rounds env c) \<and> Suc c < MAX_CONTINUE_RESPONSES")
    case True
    show ?thesis
    proof (cases "j = c")
      case True
      with \<open>continuing (rounds env c) \<and> Suc c < MAX_CONTINUE_RESPONSES\<close> show ?thesis by simp
    next
      case False
      with "1.prems" True have "Suc c \<le> j" "j < exit_round env (Suc c)"
        by (simp_all add: exit_round_step)
      with "1.IH" True show ?thesis by simp
    qed
  next
    case False
    with "1.prems" show ?thesis by (simp add: exit_round_stop)
  qed
qed

lemma exit_round_final:
  "\<not> continuing (rounds env (exit_round env c)) \<or> Suc (exit_round env c) \<ge> MAX_CONTINUE_RESPONSES"
proof (induction env c rule: exit_round.induct)
  case (1 env c)
  show ?case
  proof (cases "continuing (rounds env c) \<and> Suc c < MAX_CONTINUE_RESPONSES")
    case True
    with "1.IH" show ?thesis by (simp add: exit_round_step)
  next
    case False
    then show ?thesis by (auto simp add: exit_round_stop)
  qed
qed

lemma do_stall_retry_ret:
  "fst (do_stall_retry env d t c s) = final_ret (rounds env (exit_round env c))"
proof (induction env c arbitrary: t s rule: exit_round.induct)
  case (1 env c)
  show ?case
  proof (cases "continuing (rounds env c) \<and> Suc c < MAX_CONTINUE_RESPONSES")
    case True
    then show ?thesis
      using "1.IH" by (simp add: do_stall_retry_continue exit_round_step)
  next
    case False
    then show ?thesis
      by (cases "round_disabled (rounds env c)")
         (auto simp: exit_round_stop do_stall_retry_disabled do_stall_retry_exit final_ret_def
            do_stall_finish_def Let_def)
  qed
qed

lemma do_stall_retry_response:
  "st_response (snd (do_stall_retry env d t c s)) =
     (let r = rounds env (exit_round env c) in
      if round_disabled r then st_response s
      else if final_response d r = DYNSEC_RESPONSE_EPERM then - EPERM else st_response s)"
proof (induction env c arbitrary: t s rule: exit_round.induct)
  case (1 env c)
  show ?case
  proof (cases "continuing (rounds env c) \<and> Suc c < MAX_CONTINUE_RESPONSES")
    case True
    then show ?thesis
      using "1.IH" by (simp add: do_stall_retry_continue exit_round_step Let_def)
  next
    case False
    then show ?thesis
      by (cases "round_disabled (rounds env c)")
         (auto simp: exit_round_stop do_stall_retry_disabled do_stall_retry_exit final_response_def
            do_stall_finish_def Let_def)
  qed
qed

lemma do_stall_retry_calls:
  "st_calls (snd (do_stall_retry env d t c s)) =
     st_calls s @ (if round_disabled (rounds env (exit_round env c)) then []
                   else [Stall_tbl_remove_entry])"
proof (induction env c arbitrary: t s rule: exit_round.induct)
  case (1 env c)
  show ?case
  proof (cases "continuing (rounds env c) \<and> Suc c < MAX_CONTINUE_RESPONSES")
    case True
    then show ?thesis
      using "1.IH" by (simp add: do_stall_retry_continue exit_round_step Let_def)
  next
    case False
    then show ?thesis
      by (cases "round_disabled (rounds env c)")
         (auto simp: exit_round_stop do_stall_retry_disabled do_stall_retry_exit
            do_stall_finish_def Let_def)
  qed
qed

lemma do_stall_retry_waits:
  "st_waits (snd (do_stall_retry env d t c s)) = st_waits s @ granted env t c"
proof (induction env c arbitrary: t s rule: exit_round.induct)
  case (1 env c)
  show ?case
  proof (cases "continuing (rounds env c) \<and> Suc c < MAX_CONTINUE_RESPONSES")
    case True
    have lt: "c < exit_round env (Suc c)"
      using exit_round_ge [of "Suc c" env] by simp
    then have up: "[c..<exit_round env (Suc c)] = c # [Suc c..<exit_round env (Suc c)]"
      by (simp add: upt_conv_Cons)
    have "granted env t c = t # granted env (next_timeout env (rounds env c)) (Suc c)"
      using True by (simp add: granted_def exit_round_step Let_def up)
    then show ?thesis
      using "1.IH" True by (simp add: do_stall_retry_continue)
  next
    case False
    then show ?thesis
      by (cases "round_disabled (rounds env c)")
         (auto simp: exit_round_stop do_stall_retry_disabled do_stall_retry_exit granted_def
            do_stall_finish_def Let_def)
  qed
qed

lemma length_granted: "c < MAX_CONTINUE_RESPONSES \<Longrightarrow> length (granted env t c) \<le> MAX_CONTINUE_RESPONSES - c"
  using exit_round_lt [of c env] exit_round_ge [of c env]
  by (auto simp: granted_def Let_def)

lemma do_stall_interruptible_parts:
  "fst (do_stall_interruptible env s) = final_ret (rounds env (exit_round env 0))"
  "st_response (snd (do_stall_interruptible env s)) =
     (let r = rounds env (exit_round env 0) in
      if round_disabled r then st_response s
      else if final_response (entry_response (st_entry s)) r = DYNSEC_RESPONSE_EPERM
      then - EPERM else st_response s)"
  "st_calls (snd (do_stall_interruptible env s)) =
     st_calls s @ (if round_disabled (rounds env (exit_round env 0)) then []
                   else [Stall_tbl_remove_entry])"
  "st_waits (snd (do_stall_interruptible env s)) =
     st_waits s @ granted env (msecs_to_jiffies env (get_wait_timeout env)) 0"
  by (simp_all add: do_stall_interruptible_def do_stall_retry_ret do_stall_retry_response
        do_stall_retry_calls do_stall_retry_waits)

lemma wait_inserted:
  assumes "entry_inserted env ev"
  shows "dynsec_wait_event_timeout env (Some ev) (Some r0) =
     (let r = rounds env (exit_round env 0) in
      \<lparr>w_ret = 0,
       w_response = Some (if round_disabled r then 0
                          else verdict_of (final_response (default_response env) r)),
       w_calls = [Stall_tbl_insert ev]
                 @ (if round_disabled r then [] else [Stall_tbl_remove_entry])
                 @ [Kfree_entry],
       w_waits = granted env (msecs_to_jiffies env (get_wait_timeout env)) 0\<rparr>)"
  using assms
  by (auto simp: dynsec_wait_event_timeout_def entry_inserted_def stall_tbl_insert_def
        case_prod_beta do_stall_interruptible_parts Let_def verdict_of_def default_response_def)


lemma exit_round_all_continue:
  "\<forall>k. c \<le> k \<and> k < MAX_CONTINUE_RESPONSES \<longrightarrow> continuing (rounds env k) \<Longrightarrow>
   c < MAX_CONTINUE_RESPONSES \<Longrightarrow> exit_round env c = MAX_CONTINUE_RESPONSES - 1"
proof (induction env c rule: exit_round.induct)
  case (1 env c)
  show ?case
  proof (cases "Suc c < MAX_CONTINUE_RESPONSES")
    case True
    with "1.prems" have step: "continuing (rounds env c) \<and> Suc c < MAX_CONTINUE_RESPONSES"
      by simp
    from "1.prems" have "\<forall>k. Suc c \<le> k \<and> k < MAX_CONTINUE_RESPONSES \<longrightarrow> continuing (rounds env k)"
      by simp
    with "1.IH" [OF step] True step show ?thesis
      by (simp add: exit_round_step)
  next
    case False
    with "1.prems" show ?thesis
      by (simp add: exit_round_stop)
  qed
qed

lemma continuing_not_disabled: "continuing r \<Longrightarrow> \<not> round_disabled r"
  by (simp add: continuing_def round_disabled_def)

lemma length_granted_enabled:
  "\<not> round_disabled (rounds env (exit_round env c)) \<Longrightarrow>
   length (granted env t c) = Suc (exit_round env c - c)"
  by (simp add: granted_def Let_def)

lemma response_codes_distinct:
  "DYNSEC_RESPONSE_CONTINUE \<noteq> DYNSEC_RESPONSE_EPERM"
  "DYNSEC_RESPONSE_ALLOW \<noteq> DYNSEC_RESPONSE_EPERM"
  "DYNSEC_RESPONSE_ALLOW \<noteq> DYNSEC_RESPONSE_CONTINUE"
  by (simp_all add: DYNSEC_RESPONSE_CONTINUE_def DYNSEC_RESPONSE_EPERM_def DYNSEC_RESPONSE_ALLOW_def)

lemma cap_round:
  assumes "\<forall>k < MAX_CONTINUE_RESPONSES. continuing (rounds env k)"
  shows "exit_round env 0 = MAX_CONTINUE_RESPONSES - 1"
    and "continuing (rounds env (exit_round env 0))"
proof -
  show e: "exit_round env 0 = MAX_CONTINUE_RESPONSES - 1"
    using assms by (intro exit_round_all_continue) (auto simp: MAX_CONTINUE_RESPONSES_def)
  show "continuing (rounds env (exit_round env 0))"
    using assms e by (simp add: MAX_CONTINUE_RESPONSES_def)
qed

lemma stall_or_enqueue_stalls:
  "has_flag DYNSEC_REPORT_STALL ev \<Longrightarrow> entry_inserted env ev \<Longrightarrow>
   h_ret (stall_or_enqueue env ev ret) =
     the (w_response (dynsec_wait_event_timeout env (Some ev) (Some 0)))"
  by (simp add: stall_or_enqueue_def has_flag_def wait_inserted Let_def)

lemma wait_at_cap:
  assumes ins: "entry_inserted env ev"
      and cont: "\<forall>k < MAX_CONTINUE_RESPONSES. continuing (rounds env k)"
  shows "dynsec_wait_event_timeout env (Some ev) (Some r0) =
           \<lparr>w_ret = 0, w_response = Some 0,
            w_calls = [Stall_tbl_insert ev, Stall_tbl_remove_entry, Kfree_entry],
            w_waits = granted env (msecs_to_jiffies env (get_wait_timeout env)) 0\<rparr>"
proof -
  let ?r = "rounds env (exit_round env 0)"
  have c: "continuing ?r"
    using cap_round [OF cont] by simp
  then have "\<not> round_disabled ?r" "final_response (default_response env) ?r = DYNSEC_RESPONSE_CONTINUE"
    by (simp_all add: continuing_not_disabled final_response_def continuing_def)
  then show ?thesis
    by (simp add: wait_inserted [OF ins] Let_def verdict_of_def response_codes_distinct)
qed

lemma continue_env_facts:
  "entry_inserted continue_env stalling_event"
  "\<forall>k < MAX_CONTINUE_RESPONSES. continuing (rounds continue_env k)"
  "has_flag DYNSEC_REPORT_STALL stalling_event"
  by (simp_all add: entry_inserted_def continue_env_def sample_env_def stalling_event_def
        continuing_def continue_round_def timeout_round_def IS_ERR_def has_flag_def
        DYNSEC_REPORT_AUDIT_def DYNSEC_REPORT_STALL_def DYNSEC_REPORT_IGNORE_def
        DYNSEC_RESPONSE_CONTINUE_def)

lemma bprm_builds_stalling_event:
  "dynsec_bprm_set_creds continue_env (Some sample_bprm) =
     stall_or_enqueue continue_env stalling_event 0"
  by (simp add: dynsec_bprm_set_creds_def continue_env_def sample_env_def sample_bprm_def
        self_or_stall_def sample_task_def alloc_dynsec_event_def fill_then_send_def fill_in_def
        stalling_event_def Let_def)

lemma exit_round_not_continuing: "\<not> continuing (rounds env c) \<Longrightarrow> exit_round env c = c"
  by (simp add: exit_round_stop)

lemma deny_env_facts:
  "entry_inserted deny_env stalling_event"
  "exit_round deny_env 0 = 0"
  "rounds deny_env 0 = deny_round"
proof -
  show "entry_inserted deny_env stalling_event"
    by (simp add: entry_inserted_def deny_env_def sample_env_def stalling_event_def
          IS_ERR_def DYNSEC_REPORT_AUDIT_def DYNSEC_REPORT_STALL_def DYNSEC_REPORT_IGNORE_def)
  show r: "rounds deny_env 0 = deny_round"
    by (simp add: deny_env_def)
  have "\<not> continuing (rounds deny_env 0)"
    by (simp add: r continuing_def deny_round_def response_codes_distinct(1) [symmetric])
  then show "exit_round deny_env 0 = 0"
    by (rule exit_round_not_continuing)
qed

lemma sum_list_butlast_le: "sum_list (butlast xs) \<le> sum_list (xs :: nat list)"
  by (induction xs) auto

lemma sum_list_map_upt_le:
  "\<forall>j. c \<le> j \<and> j < k \<longrightarrow> f j \<le> (T::nat) \<Longrightarrow> sum_list (map f [c..<k]) \<le> (k - c) * T"
proof (induction k)
  case 0
  then show ?case by simp
next
  case (Suc k)
  show ?case
  proof (cases "c \<le> k")
    case True
    from Suc.prems have "f k \<le> T" using True by simp
    moreover from Suc have "sum_list (map f [c..<k]) \<le> (k - c) * T" by simp
    ultimately show ?thesis using True by (simp add: Suc_diff_le)
  next
    case False
    then show ?thesis by simp
  qed
qed

lemma sum_granted_le:
  assumes "\<forall>j. c \<le> j \<and> j < exit_round env c \<longrightarrow> next_timeout env (rounds env j) \<le> T"
  shows "sum_list (granted env t c) \<le> t + (exit_round env c - c) * T"
proof -
  let ?ws = "t # map (\<lambda>j. next_timeout env (rounds env j)) [c..<exit_round env c]"
  have "sum_list ?ws \<le> t + (exit_round env c - c) * T"
    using sum_list_map_upt_le [of c "exit_round env c" "\<lambda>j. next_timeout env (rounds env j)" T] assms
    by simp
  moreover have "sum_list (granted env t c) \<le> sum_list ?ws"
    using sum_list_butlast_le [of ?ws] by (simp add: granted_def Let_def del: butlast.simps)
  ultimately show ?thesis by simp
qed

lemma length_granted_le: "length (granted env t c) \<le> Suc (exit_round env c - c)"
  by (auto simp: granted_def Let_def)

lemma waits_of_stall_granted:
  "waits_of_stall env s = granted env (msecs_to_jiffies env (get_wait_timeout env)) 0"
  by (simp add: waits_of_stall_def do_stall_interruptible_parts)

lemma PTR_ERR_nonzero:
  assumes "IS_ERR p"
  shows "PTR_ERR p \<noteq> 0"
proof
  assume z: "PTR_ERR p = 0"
  then have "(ucast p :: 32 word) = 0"
    by (simp add: PTR_ERR_def signed_eq_0_iff)
  then have "unat (ucast p :: 32 word) = 0"
    by simp
  then have m: "unat p mod 4294967296 = 0"
    by (simp add: unsigned_ucast_eq take_bit_eq_mod)
  have "unat (- 4095 :: 64 word) \<le> unat p"
    using assms by (simp add: IS_ERR_def word_le_nat_alt)
  then have lo: "18446744073709547521 \<le> unat p"
    by simp
  have hi: "unat p < 18446744073709551616"
    using unsigned_less [of p, where ?'a = nat] by simp
  from m obtain q where q: "unat p = 4294967296 * q"
    by (auto simp: mod_eq_0_iff_dvd elim: dvdE)
  with hi have "q < 4294967296"
    by simp
  then have "q \<le> 4294967295"
    by simp
  then have "4294967296 * q \<le> 4294967296 * 4294967295"
    by (rule mult_le_mono2)
  with q lo show False
    by simp
qed

lemma errno_nonzero: "EINVAL \<noteq> 0" "ECHILD \<noteq> 0" "EPERM \<noteq> 0"
  by (simp_all add: EINVAL_def ECHILD_def EPERM_def)

lemma wait_no_event:
  "dynsec_event = None \<or> \<not> stall_tbl_enabled env \<Longrightarrow>
   dynsec_wait_event_timeout env dynsec_event (Some r0) =
     \<lparr>w_ret = - EINVAL, w_response = Some 0, w_calls = [Free_dynsec_event dynsec_event],
      w_waits = []\<rparr>"
  by (simp add: dynsec_wait_event_timeout_def)

lemma wait_ignored:
  "stall_tbl_enabled env \<Longrightarrow> has_flag DYNSEC_REPORT_IGNORE ev \<Longrightarrow> ignore_mode_enabled env \<Longrightarrow>
   dynsec_wait_event_timeout env (Some ev) (Some r0) =
     \<lparr>w_ret = - ECHILD, w_response = Some 0, w_calls = [Free_dynsec_event (Some ev)],
      w_waits = []\<rparr>"
  by (simp add: dynsec_wait_event_timeout_def has_flag_def)

lemma wait_insert_failed:
  "stall_tbl_enabled env \<Longrightarrow> \<not> (has_flag DYNSEC_REPORT_IGNORE ev \<and> ignore_mode_enabled env) \<Longrightarrow>
   IS_ERR (stall_tbl_insert_ptr env) \<Longrightarrow>
   dynsec_wait_event_timeout env (Some ev) (Some r0) =
     \<lparr>w_ret = PTR_ERR (stall_tbl_insert_ptr env), w_response = Some 0,
      w_calls = [Stall_tbl_insert ev, Free_dynsec_event (Some ev)], w_waits = []\<rparr>"
  by (simp add: dynsec_wait_event_timeout_def has_flag_def stall_tbl_insert_def)

lemma sample_env_inserted: "entry_inserted sample_env stalling_event"
  by (simp add: entry_inserted_def sample_env_def stalling_event_def
        IS_ERR_def DYNSEC_REPORT_AUDIT_def DYNSEC_REPORT_STALL_def DYNSEC_REPORT_IGNORE_def)

section \<open>Claims about the stall engine\<close>

text \<open>
  Claim C1, as the code has it. The spec has the engine end a stall with DENY after the
  256th continuation. In the code the 256th CONTINUE leaves the loop with
  \<^verbatim>\<open>ret = -ECHILD\<close>; the final response is CONTINUE, which is not
  \<^verbatim>\<open>DYNSEC_RESPONSE_EPERM\<close>, so \<^verbatim>\<open>*response\<close> keeps the 0 it was given, the entry is
  removed, and the hook returns 0 (ALLOW), whatever the deny-on-timeout switch says.
  Amended claim: when user space answers CONTINUE to each of the first 256 waits of one
  stalled event, the engine waits exactly 256 times and then ends the stall with
  \<^verbatim>\<open>do_stall_interruptible\<close> returning \<^verbatim>\<open>-ECHILD\<close>, the entry removed and the verdict
  ALLOW: the hook returns 0.
\<close>

theorem continuation_cap_ends_in_allow:
  fixes env :: "'a hook_env_scheme"
  assumes ins: "entry_inserted env ev"
      and cont: "\<forall>k < MAX_CONTINUE_RESPONSES. continuing (rounds env k)"
  shows "fst (do_stall_interruptible env s) = - ECHILD
       \<and> length (waits_of_stall env s) = 256
       \<and> st_response (snd (do_stall_interruptible env s)) = st_response s
       \<and> st_calls (snd (do_stall_interruptible env s)) = st_calls s @ [Stall_tbl_remove_entry]
       \<and> w_ret (dynsec_wait_event_timeout env (Some ev) (Some r0)) = 0
       \<and> w_response (dynsec_wait_event_timeout env (Some ev) (Some r0)) = Some 0
       \<and> (has_flag DYNSEC_REPORT_STALL ev \<longrightarrow> h_ret (stall_or_enqueue env ev 0) = 0)"
proof -
  let ?r = "rounds env (exit_round env 0)"
  have k: "exit_round env 0 = MAX_CONTINUE_RESPONSES - 1" and c: "continuing ?r"
    using cap_round [OF cont] by simp_all
  have nd: "\<not> round_disabled ?r"
    using c by (rule continuing_not_disabled)
  have resp: "r_response ?r = DYNSEC_RESPONSE_CONTINUE" and woken: "0 < r_wait_ret ?r"
    using c by (simp_all add: continuing_def)
  have fr: "final_response d ?r = DYNSEC_RESPONSE_CONTINUE" for d
    using resp woken by (simp add: final_response_def)
  have 1: "fst (do_stall_interruptible env s) = - ECHILD"
    using nd resp woken by (simp add: do_stall_interruptible_parts final_ret_def)
  have 2: "length (waits_of_stall env s) = 256"
    using nd k
    by (simp add: waits_of_stall_def do_stall_interruptible_parts length_granted_enabled
          MAX_CONTINUE_RESPONSES_def)
  have 3: "st_response (snd (do_stall_interruptible env s)) = st_response s"
    using nd fr by (simp add: do_stall_interruptible_parts Let_def response_codes_distinct)
  have 4: "st_calls (snd (do_stall_interruptible env s)) = st_calls s @ [Stall_tbl_remove_entry]"
    using nd by (simp add: do_stall_interruptible_parts)
  have w: "w_ret (dynsec_wait_event_timeout env (Some ev) (Some r0)) = 0
         \<and> w_response (dynsec_wait_event_timeout env (Some ev) (Some r0)) = Some 0" for r0
    using nd fr by (simp add: wait_inserted [OF ins] Let_def verdict_of_def response_codes_distinct)
  have 5: "has_flag DYNSEC_REPORT_STALL ev \<longrightarrow> h_ret (stall_or_enqueue env ev 0) = 0"
    using w [of 0] ins by (simp add: stall_or_enqueue_stalls)
  show ?thesis
    using 1 2 3 4 w 5 by simp
qed

theorem continuation_cap_ends_in_allow_witness:
  "fst (do_stall_interruptible continue_env sample_state) = - ECHILD
   \<and> length (waits_of_stall continue_env sample_state) = 256
   \<and> w_response (dynsec_wait_event_timeout continue_env (Some stalling_event) (Some 0)) = Some 0
   \<and> h_ret (stall_or_enqueue continue_env stalling_event 0) = 0"
  using continuation_cap_ends_in_allow [OF continue_env_facts(1,2), of sample_state 0]
    continue_env_facts(3)
  by simp

text \<open>
  The claim as the spec states it fails: with deny-on-timeout switched on and every wait
  answered by CONTINUE, the exec hook returns 0, not \<^verbatim>\<open>-EPERM\<close>.
\<close>

theorem continuation_cap_counterexample:
  "h_ret (run_hook continue_env (Bprm_set_creds (Some sample_bprm))) = 0
   \<and> h_ret (run_hook continue_env (Bprm_set_creds (Some sample_bprm))) \<noteq> - EPERM
   \<and> deny_on_timeout_enabled continue_env
   \<and> w_response (dynsec_wait_event_timeout continue_env (Some stalling_event) (Some 0)) = Some 0"
  by (simp add: bprm_builds_stalling_event stall_or_enqueue_stalls continue_env_facts
        wait_at_cap [OF continue_env_facts(1,2)] EPERM_def)
     (simp add: continue_env_def)

text \<open>
  Claim C2: the waiter removes the stall entry on every exit path of the wait, before the
  entry is freed. The code does so on the paths that reach the end of
  \<^verbatim>\<open>do_stall_interruptible\<close> (lemma \<open>wait_inserted\<close>), but the three early returns at
  \<^verbatim>\<open>retry:\<close> skip \<^verbatim>\<open>stall_tbl_remove_entry\<close>, against the comment "Must always attempt
  to remove from the table". Evaluated where stall mode is off when the waiter looks: the
  entry is inserted and then freed, and never removed.
\<close>

theorem stall_mode_off_skips_remove:
  "w_calls (dynsec_wait_event_timeout stall_mode_off_env (Some stalling_event) (Some 0)) =
     [Stall_tbl_insert stalling_event, Kfree_entry]"
proof -
  have ins: "entry_inserted stall_mode_off_env stalling_event"
    by (simp add: entry_inserted_def stall_mode_off_env_def sample_env_def stalling_event_def
          IS_ERR_def DYNSEC_REPORT_AUDIT_def DYNSEC_REPORT_STALL_def DYNSEC_REPORT_IGNORE_def)
  have r: "rounds stall_mode_off_env 0 = stall_mode_off_round"
    by (simp add: stall_mode_off_env_def)
  have nc: "\<not> continuing (rounds stall_mode_off_env 0)"
    by (simp add: r continuing_def stall_mode_off_round_def)
  have d: "round_disabled (rounds stall_mode_off_env (exit_round stall_mode_off_env 0))"
    by (simp add: exit_round_not_continuing [OF nc] r round_disabled_def stall_mode_off_round_def)
  show ?thesis
    using d by (simp add: wait_inserted [OF ins] Let_def)
qed

text \<open>
  Claim C3: the verdict a stall returns maps the final response, ALLOW to 0, DENY to
  \<^verbatim>\<open>-EPERM\<close> and anything else to 0; after a timeout or an interrupt the final response
  is the configured default, so the verdict is \<^verbatim>\<open>-EPERM\<close> exactly when deny-on-timeout
  is on. The pass that ends the loop is \<open>exit_round env 0\<close>; the statement is for the
  stalls that end by a wait, not by one of the three switches.
\<close>

theorem stall_verdict_of_final_response:
  fixes env :: "'a hook_env_scheme"
  assumes ins: "entry_inserted env ev"
      and nd: "\<not> round_disabled (rounds env (exit_round env 0))"
  shows "(let r = rounds env (exit_round env 0);
              v = (if r_wait_ret r \<le> 0 then (if deny_on_timeout_enabled env then - EPERM else 0)
                   else if r_response r = DYNSEC_RESPONSE_ALLOW then 0
                   else if r_response r = DYNSEC_RESPONSE_EPERM then - EPERM
                   else 0)
          in w_response (dynsec_wait_event_timeout env (Some ev) (Some r0)) = Some v
             \<and> (has_flag DYNSEC_REPORT_STALL ev \<longrightarrow> h_ret (stall_or_enqueue env ev 0) = v))"
proof -
  have "w_response (dynsec_wait_event_timeout env (Some ev) (Some r0)) =
          Some (verdict_of (final_response (default_response env) (rounds env (exit_round env 0))))"
    for r0
    using nd by (simp add: wait_inserted [OF ins] Let_def)
  then show ?thesis
    using ins
    by (auto simp: Let_def stall_or_enqueue_stalls verdict_of_def final_response_def
          default_response_def response_codes_distinct)
qed

theorem stall_verdict_of_final_response_witness:
  "w_response (dynsec_wait_event_timeout deny_env (Some stalling_event) (Some 0)) = Some (- 1)
   \<and> h_ret (stall_or_enqueue deny_env stalling_event 0) = - 1"
proof -
  have nd: "\<not> round_disabled (rounds deny_env (exit_round deny_env 0))"
    by (simp add: deny_env_facts round_disabled_def deny_round_def timeout_round_def)
  have st: "has_flag DYNSEC_REPORT_STALL stalling_event"
    by (rule continue_env_facts)
  show ?thesis
    using stall_verdict_of_final_response [OF deny_env_facts(1) nd, of 0] st
    by (simp add: Let_def deny_env_facts deny_round_def timeout_round_def EPERM_def
          DYNSEC_RESPONSE_EPERM_def DYNSEC_RESPONSE_ALLOW_def)
qed

text \<open>
  Claim C4: \<^verbatim>\<open>do_stall_interruptible\<close> always terminates. The loop is the recursive
  function \<open>do_stall_retry\<close>, total by its termination proof (the measure is
  \<open>MAX_CONTINUE_RESPONSES - continue_count\<close>). One call waits at most 256 times; every wait
  but the last it performs was ended by a CONTINUE response; and when no continuation
  grants more than \<open>T\<close>, the timeouts of all its waits add up to at most the initial
  timeout plus \<open>256 * T\<close>. A wait returns within the timeout it is given, so that sum
  bounds the time one stall can take.
\<close>

theorem do_stall_interruptible_bounded:
  "length (waits_of_stall env s) \<le> MAX_CONTINUE_RESPONSES
   \<and> (\<forall>i. Suc i < length (waits_of_stall env s) \<longrightarrow> continuing (rounds env i))
   \<and> ((\<forall>j < 255. next_timeout env (rounds env j) \<le> T) \<longrightarrow>
        sum_list (waits_of_stall env s)
          \<le> msecs_to_jiffies env (get_wait_timeout env) + 256 * T)"
proof -
  let ?k = "exit_round env 0"
  have k: "?k < 256"
    using exit_round_lt [of 0 env] by (simp add: MAX_CONTINUE_RESPONSES_def)
  have len: "length (waits_of_stall env s) \<le> Suc ?k"
    using length_granted_le [of env _ 0] by (simp add: waits_of_stall_granted)
  have 1: "length (waits_of_stall env s) \<le> MAX_CONTINUE_RESPONSES"
    using len k by (simp add: MAX_CONTINUE_RESPONSES_def)
  have 2: "continuing (rounds env i)" if "Suc i < length (waits_of_stall env s)" for i
    using that len exit_round_before [of 0 i env] by simp
  have 3: "sum_list (waits_of_stall env s)
             \<le> msecs_to_jiffies env (get_wait_timeout env) + 256 * T"
    if b: "\<forall>j < 255. next_timeout env (rounds env j) \<le> T"
  proof -
    have "\<forall>j. 0 \<le> j \<and> j < ?k \<longrightarrow> next_timeout env (rounds env j) \<le> T"
      using b k by auto
    then have "sum_list (waits_of_stall env s)
                 \<le> msecs_to_jiffies env (get_wait_timeout env) + ?k * T"
      using sum_granted_le [of 0 env T "msecs_to_jiffies env (get_wait_timeout env)"]
      by (simp add: waits_of_stall_granted)
    moreover have "?k * T \<le> 256 * T"
      using k by (intro mult_le_mono1) simp
    ultimately show ?thesis by linarith
  qed
  show ?thesis
    using 1 2 3 by blast
qed

theorem do_stall_interruptible_bounded_witness:
  "length (waits_of_stall continue_env sample_state) \<le> 256
   \<and> continuing (rounds continue_env 254)
   \<and> sum_list (waits_of_stall continue_env sample_state) \<le> 1000 + 256 * 5000"
proof -
  have len: "length (waits_of_stall continue_env sample_state) = 256"
    using length_granted_enabled [of continue_env 0] cap_round [OF continue_env_facts(2)]
    by (simp add: waits_of_stall_granted continuing_not_disabled MAX_CONTINUE_RESPONSES_def)
  have b: "\<forall>j < 255. next_timeout continue_env (rounds continue_env j) \<le> 5000"
    by (simp add: next_timeout_def continue_env_def sample_env_def continue_round_def
          timeout_round_def)
  have t: "msecs_to_jiffies continue_env (get_wait_timeout continue_env) = 1000"
    by (simp add: continue_env_def sample_env_def)
  from do_stall_interruptible_bounded [of continue_env sample_state 5000]
  have "length (waits_of_stall continue_env sample_state) \<le> MAX_CONTINUE_RESPONSES"
    and "Suc 254 < length (waits_of_stall continue_env sample_state)
           \<longrightarrow> continuing (rounds continue_env 254)"
    and "sum_list (waits_of_stall continue_env sample_state)
           \<le> msecs_to_jiffies continue_env (get_wait_timeout continue_env) + 256 * 5000"
    using b by blast+
  then show ?thesis
    using len t by (simp add: MAX_CONTINUE_RESPONSES_def)
qed

text \<open>
  Claim C10: \<^verbatim>\<open>dynsec_wait_event_timeout\<close> returns \<^verbatim>\<open>-EINVAL\<close> and frees nothing when
  the response pointer is NULL; when the event is NULL, the stall table is disabled, the
  event is ignorable or the insertion fails, its last act is to free the event and it
  returns a nonzero error; and once an entry is inserted it returns 0 with
  \<^verbatim>\<open>*response\<close> either 0 or \<^verbatim>\<open>-EPERM\<close>.
\<close>

theorem dynsec_wait_event_timeout_results:
  "dynsec_wait_event_timeout env dynsec_event None =
     \<lparr>w_ret = - EINVAL, w_response = None, w_calls = [], w_waits = []\<rparr>
   \<and> ((dynsec_event = None \<or> \<not> stall_tbl_enabled env
        \<or> (\<exists>ev. dynsec_event = Some ev \<and> has_flag DYNSEC_REPORT_IGNORE ev
                 \<and> ignore_mode_enabled env)
        \<or> IS_ERR (stall_tbl_insert_ptr env)) \<longrightarrow>
       w_ret (dynsec_wait_event_timeout env dynsec_event (Some r0)) \<noteq> 0
       \<and> last (w_calls (dynsec_wait_event_timeout env dynsec_event (Some r0)))
             = Free_dynsec_event dynsec_event
       \<and> Stall_tbl_remove_entry \<notin> set (w_calls (dynsec_wait_event_timeout env dynsec_event (Some r0))))
   \<and> (\<forall>ev. entry_inserted env ev \<longrightarrow>
         w_ret (dynsec_wait_event_timeout env (Some ev) (Some r0)) = 0
         \<and> (w_response (dynsec_wait_event_timeout env (Some ev) (Some r0)) = Some 0
            \<or> w_response (dynsec_wait_event_timeout env (Some ev) (Some r0)) = Some (- EPERM)))"
proof -
  have 1: "dynsec_wait_event_timeout env dynsec_event None =
             \<lparr>w_ret = - EINVAL, w_response = None, w_calls = [], w_waits = []\<rparr>"
    by (simp add: dynsec_wait_event_timeout_def)
  have 2: "w_ret (dynsec_wait_event_timeout env dynsec_event (Some r0)) \<noteq> 0
       \<and> last (w_calls (dynsec_wait_event_timeout env dynsec_event (Some r0)))
             = Free_dynsec_event dynsec_event
       \<and> Stall_tbl_remove_entry \<notin> set (w_calls (dynsec_wait_event_timeout env dynsec_event (Some r0)))"
    if "dynsec_event = None \<or> \<not> stall_tbl_enabled env
        \<or> (\<exists>ev. dynsec_event = Some ev \<and> has_flag DYNSEC_REPORT_IGNORE ev
                 \<and> ignore_mode_enabled env)
        \<or> IS_ERR (stall_tbl_insert_ptr env)"
  proof (cases "dynsec_event = None \<or> \<not> stall_tbl_enabled env")
    case True
    then show ?thesis
      by (simp add: wait_no_event errno_nonzero)
  next
    case False
    then obtain ev where ev: "dynsec_event = Some ev" and en: "stall_tbl_enabled env"
      by auto
    show ?thesis
    proof (cases "has_flag DYNSEC_REPORT_IGNORE ev \<and> ignore_mode_enabled env")
      case True
      then show ?thesis
        using en ev by (simp add: wait_ignored errno_nonzero)
    next
      case False
      with that ev en have "IS_ERR (stall_tbl_insert_ptr env)"
        by auto
      then show ?thesis
        using en ev False by (simp add: wait_insert_failed PTR_ERR_nonzero)
    qed
  qed
  have 3: "w_ret (dynsec_wait_event_timeout env (Some ev) (Some r0)) = 0
         \<and> (w_response (dynsec_wait_event_timeout env (Some ev) (Some r0)) = Some 0
            \<or> w_response (dynsec_wait_event_timeout env (Some ev) (Some r0)) = Some (- EPERM))"
    if "entry_inserted env ev" for ev
    by (simp add: wait_inserted [OF that] Let_def verdict_of_def)
  show ?thesis
    using 1 2 3 by blast
qed

theorem dynsec_wait_event_timeout_results_witness:
  "w_ret (dynsec_wait_event_timeout (sample_env\<lparr>stall_tbl_insert_ptr := - 12\<rparr>)
            (Some stalling_event) (Some 0)) \<noteq> 0
   \<and> last (w_calls (dynsec_wait_event_timeout (sample_env\<lparr>stall_tbl_insert_ptr := - 12\<rparr>)
            (Some stalling_event) (Some 0))) = Free_dynsec_event (Some stalling_event)
   \<and> w_ret (dynsec_wait_event_timeout sample_env (Some stalling_event) (Some 0)) = 0
   \<and> w_response (dynsec_wait_event_timeout deny_env (Some stalling_event) (Some 0))
        = Some (- EPERM)"
proof -
  have e: "IS_ERR (stall_tbl_insert_ptr (sample_env\<lparr>stall_tbl_insert_ptr := - 12\<rparr>))"
    by (simp add: IS_ERR_def)
  have d: "w_response (dynsec_wait_event_timeout deny_env (Some stalling_event) (Some 0)) \<noteq> Some 0"
    using deny_env_facts
    by (simp add: wait_inserted Let_def round_disabled_def deny_round_def timeout_round_def
          verdict_of_def final_response_def EPERM_def)
  show ?thesis
    using dynsec_wait_event_timeout_results
            [of "sample_env\<lparr>stall_tbl_insert_ptr := - 12\<rparr>" "Some stalling_event" 0]
          dynsec_wait_event_timeout_results [of sample_env "Some stalling_event" 0]
          dynsec_wait_event_timeout_results [of deny_env "Some stalling_event" 0]
          e d sample_env_inserted deny_env_facts(1)
    by blast
qed

section \<open>Properties of the control request\<close>

lemma ioc_flag_tests:
  "(DYNSEC_STALL_DEFAULT_TIMEOUT AND
      (DYNSEC_STALL_MODE_SET OR DYNSEC_STALL_DEFAULT_TIMEOUT
       OR DYNSEC_STALL_CONTINUE_TIMEOUT OR DYNSEC_STALL_DEFAULT_DENY)) = DYNSEC_STALL_DEFAULT_TIMEOUT"
  "DYNSEC_STALL_DEFAULT_TIMEOUT \<noteq> 0"
  "DYNSEC_STALL_DEFAULT_TIMEOUT AND DYNSEC_STALL_MODE_SET = 0"
  "DYNSEC_STALL_DEFAULT_TIMEOUT AND DYNSEC_STALL_CONTINUE_TIMEOUT = 0"
  "DYNSEC_STALL_DEFAULT_TIMEOUT AND DYNSEC_STALL_DEFAULT_DENY = 0"
  by (simp_all add: DYNSEC_STALL_MODE_SET_def DYNSEC_STALL_DEFAULT_TIMEOUT_def
        DYNSEC_STALL_CONTINUE_TIMEOUT_def DYNSEC_STALL_DEFAULT_DENY_def)

lemma handle_stall_ioc_default_timeout_only:
  "hdr_flags hdr = DYNSEC_STALL_DEFAULT_TIMEOUT \<Longrightarrow>
   handle_stall_ioc lim True (Some hdr) cfg = (0, ioc_default_timeout lim hdr cfg, [])"
  by (simp add: handle_stall_ioc_def Let_def ioc_flag_tests)

text \<open>
  What the two timeout settings do establish: a request that selects the stall timeout
  leaves it within its limits, and one that selects the continuation timeout leaves it
  between the stall timeout and the extended limit. Out-of-range values are clamped and
  the request succeeds.
\<close>

lemma ioc_default_timeout_in_range:
  "MIN_WAIT_TIMEOUT_MS lim \<le> MAX_WAIT_TIMEOUT_MS lim \<Longrightarrow>
   MIN_WAIT_TIMEOUT_MS lim \<le> stall_timeout (ioc_default_timeout lim hdr cfg)
   \<and> stall_timeout (ioc_default_timeout lim hdr cfg) \<le> MAX_WAIT_TIMEOUT_MS lim"
  by (simp add: ioc_default_timeout_def Let_def)

lemma ioc_continue_timeout_in_range:
  "stall_timeout cfg \<le> MAX_EXTENDED_TIMEOUT_MS lim \<Longrightarrow>
   stall_timeout (ioc_continue_timeout lim hdr cfg)
     \<le> stall_timeout_continue (ioc_continue_timeout lim hdr cfg)
   \<and> stall_timeout_continue (ioc_continue_timeout lim hdr cfg) \<le> MAX_EXTENDED_TIMEOUT_MS lim"
  by (simp add: ioc_continue_timeout_def Let_def)

lemma handle_stall_ioc_accepts_any_timeout:
  "recognized_flags hdr \<noteq> 0 \<Longrightarrow> fst (handle_stall_ioc lim True (Some hdr) cfg) = 0"
  by (simp add: handle_stall_ioc_def recognized_flags_def Let_def case_prod_beta)

text \<open>
  Claim C9: only privileged callers may change the configuration. A request that selects
  at least one recognised setting, from a caller without \<^verbatim>\<open>CAP_SYS_ADMIN\<close>, returns
  \<^verbatim>\<open>-EPERM\<close> and leaves every field of the configuration as it was (and flushes no cache).
\<close>

theorem handle_stall_ioc_needs_cap_sys_admin:
  "recognized_flags hdr \<noteq> 0 \<Longrightarrow>
   handle_stall_ioc lim False (Some hdr) cfg = (- EPERM, cfg, [])"
  by (simp add: handle_stall_ioc_def recognized_flags_def Let_def)

theorem handle_stall_ioc_needs_cap_sys_admin_witness:
  "recognized_flags change_all_hdr \<noteq> 0
   \<and> handle_stall_ioc sample_limits False (Some change_all_hdr) sample_config
       = (- 1, sample_config, [])
   \<and> fst (snd (handle_stall_ioc sample_limits True (Some change_all_hdr) sample_config))
       \<noteq> sample_config"
proof -
  have r: "recognized_flags change_all_hdr \<noteq> 0"
    by (simp add: recognized_flags_def change_all_hdr_def DYNSEC_STALL_MODE_SET_def
          DYNSEC_STALL_DEFAULT_TIMEOUT_def DYNSEC_STALL_CONTINUE_TIMEOUT_def
          DYNSEC_STALL_DEFAULT_DENY_def)
  have c: "fst (snd (handle_stall_ioc sample_limits True (Some change_all_hdr) sample_config))
             \<noteq> sample_config"
    by (simp add: handle_stall_ioc_def change_all_hdr_def sample_config_def sample_limits_def
          DYNSEC_STALL_MODE_SET_def DYNSEC_STALL_DEFAULT_TIMEOUT_def
          DYNSEC_STALL_CONTINUE_TIMEOUT_def DYNSEC_STALL_DEFAULT_DENY_def Let_def
          ioc_stall_mode_def ioc_default_timeout_def ioc_continue_timeout_def
          ioc_default_deny_def stall_mode_enabled_def deny_on_timeout_enabled_cfg_def
          DEFAULT_ENABLED_def DEFAULT_DISABLED_def)
  show ?thesis
    using handle_stall_ioc_needs_cap_sys_admin [OF r, of sample_limits sample_config] r c
    by (simp add: EPERM_def)
qed

text \<open>
  Claim C6: after every \<^verbatim>\<open>handle_stall_ioc\<close> call the stall timeout lies within its
  limits and the continuation timeout between the stall timeout and the extended limit.
  The code re-establishes the order of the two timeouts only where the request selects
  the continuation timeout ("Ensure our continuation timeout as at least as long as the
  regular timeout"); a request that selects the stall timeout alone raises it past an
  unchanged continuation timeout. From a configuration that satisfies the invariant, any
  such request with a value above the current continuation timeout and below the maximum
  is accepted and leaves a configuration that breaks it.
\<close>

theorem default_timeout_alone_breaks_timeout_order:
  assumes "config_ok lim cfg"
      and "hdr_flags hdr = DYNSEC_STALL_DEFAULT_TIMEOUT"
      and "stall_timeout_continue cfg < hdr_stall_timeout hdr"
      and "hdr_stall_timeout hdr < MAX_WAIT_TIMEOUT_MS lim"
  shows "fst (handle_stall_ioc lim True (Some hdr) cfg) = 0
       \<and> stall_timeout (fst (snd (handle_stall_ioc lim True (Some hdr) cfg))) = hdr_stall_timeout hdr
       \<and> stall_timeout_continue (fst (snd (handle_stall_ioc lim True (Some hdr) cfg)))
           = stall_timeout_continue cfg
       \<and> \<not> config_ok lim (fst (snd (handle_stall_ioc lim True (Some hdr) cfg)))"
  using assms
  by (auto simp: handle_stall_ioc_default_timeout_only ioc_default_timeout_def config_ok_def
        Let_def)

theorem default_timeout_alone_breaks_timeout_order_witness:
  "config_ok sample_limits sample_config
   \<and> handle_stall_ioc sample_limits True (Some raise_timeout_hdr) sample_config
       = (0, sample_config\<lparr>stall_timeout := 5000\<rparr>, [])
   \<and> stall_timeout_continue (sample_config\<lparr>stall_timeout := 5000\<rparr>) = 2000
   \<and> \<not> config_ok sample_limits
          (fst (snd (handle_stall_ioc sample_limits True (Some raise_timeout_hdr) sample_config)))"
proof -
  have ok: "config_ok sample_limits sample_config"
    by (simp add: config_ok_def sample_limits_def sample_config_def)
  have f: "hdr_flags raise_timeout_hdr = DYNSEC_STALL_DEFAULT_TIMEOUT"
    by (simp add: raise_timeout_hdr_def)
  have lt: "stall_timeout_continue sample_config < hdr_stall_timeout raise_timeout_hdr"
       "hdr_stall_timeout raise_timeout_hdr < MAX_WAIT_TIMEOUT_MS sample_limits"
    by (simp_all add: sample_config_def raise_timeout_hdr_def sample_limits_def)
  have e: "handle_stall_ioc sample_limits True (Some raise_timeout_hdr) sample_config
             = (0, sample_config\<lparr>stall_timeout := 5000\<rparr>, [])"
    unfolding handle_stall_ioc_default_timeout_only [OF f]
    by (simp add: ioc_default_timeout_def raise_timeout_hdr_def sample_limits_def Let_def)
  show ?thesis
    using default_timeout_alone_breaks_timeout_order [OF ok f lt] ok e
    by (simp add: sample_config_def)
qed

section \<open>The attribute filter\<close>

lemma clear_other_bit:
  "i \<noteq> j \<Longrightarrow> (w AND NOT (2 ^ i)) AND 2 ^ j = w AND (2 ^ j :: 32 word)"
  by (rule bit_eqI) (auto simp: bit_simps)

lemma clear_same_bit: "(w AND NOT (2 ^ i)) AND 2 ^ i = (0 :: 32 word)"
  by (rule bit_eqI) (auto simp: bit_simps)

lemma attr_pow:
  "ATTR_MODE = 2 ^ 0" "ATTR_UID = 2 ^ 1" "ATTR_GID = 2 ^ 2" "ATTR_SIZE = 2 ^ 3"
  by (simp_all add: ATTR_MODE_def ATTR_UID_def ATTR_GID_def ATTR_SIZE_def)


lemma attr_all: "ATTR_MODE OR ATTR_UID OR ATTR_GID OR ATTR_SIZE = 15"
  by (simp add: ATTR_MODE_def ATTR_UID_def ATTR_GID_def ATTR_SIZE_def)

lemma fifteen_mask: "(15 :: 32 word) = mask 4"
  by (simp add: mask_numeral)

lemma mask4_bit: "i < 4 \<Longrightarrow> (w AND mask 4) AND 2 ^ i = w AND (2 ^ i :: 32 word)"
  by (rule bit_eqI) (auto simp: bit_simps)


lemma mask4_zero:
  assumes "m AND mask 4 = (m :: 32 word)"
      and "m AND 2 ^ 0 = 0" "m AND 2 ^ 1 = 0" "m AND 2 ^ 2 = 0" "m AND 2 ^ 3 = 0"
  shows "m = 0"
proof -
  note nb = assms(2-5) [THEN and_exp_eq_0_iff_not_bit [THEN iffD1]]
  have "\<not> bit m n" for n
  proof
    assume b: "bit m n"
    then have "bit (m AND mask 4) n"
      using assms(1) by simp
    then have "n < 4"
      by (simp add: bit_and_iff bit_mask_iff)
    then have "n = 0 \<or> n = 1 \<or> n = 2 \<or> n = 3"
      by linarith
    with b nb show False
      by blast
  qed
  then show ?thesis
    by (simp add: bit_eq_iff)
qed


lemmas attr_bit_clear =
  clear_other_bit [of 0 1, simplified] clear_other_bit [of 0 2, simplified]
  clear_other_bit [of 0 3, simplified] clear_other_bit [of 1 0, simplified]
  clear_other_bit [of 1 2, simplified] clear_other_bit [of 1 3, simplified]
  clear_other_bit [of 2 0, simplified] clear_other_bit [of 2 1, simplified]
  clear_other_bit [of 2 3, simplified] clear_other_bit [of 3 0, simplified]
  clear_other_bit [of 3 1, simplified] clear_other_bit [of 3 2, simplified]
  clear_same_bit [of _ 0, simplified] clear_same_bit [of _ 1, simplified]
  clear_same_bit [of _ 2, simplified] clear_same_bit [of _ 3, simplified]
  mask4_bit [of 0, simplified fifteen_mask [symmetric], simplified]
  mask4_bit [of 1, simplified fifteen_mask [symmetric], simplified]
  mask4_bit [of 2, simplified fifteen_mask [symmetric], simplified]
  mask4_bit [of 3, simplified fifteen_mask [symmetric], simplified]

lemma and_15_idem: "(w AND 15) AND 15 = w AND (15 :: 32 word)"
  by (simp add: and.assoc)

lemma clear_keeps_15: "w AND 15 = w \<Longrightarrow> (w AND NOT b) AND 15 = w AND NOT (b :: 32 word)"
  by (metis and.assoc and.commute)

lemma setattr_mask_mode:
  "setattr_mask attr ino AND ATTR_MODE = 0 \<longleftrightarrow>
     (ia_valid attr AND ATTR_MODE = 0 \<or> ia_mode attr = i_mode ino)"
  by (simp add: setattr_mask_def Let_def attr_all ATTR_MODE_def ATTR_UID_def ATTR_GID_def
        ATTR_SIZE_def attr_bit_clear)


lemma setattr_mask_uid:
  "setattr_mask attr ino AND ATTR_UID = 0 \<longleftrightarrow>
     (ia_valid attr AND ATTR_UID = 0 \<or> ia_uid attr = i_uid ino)"
  by (simp add: setattr_mask_def Let_def attr_all ATTR_MODE_def ATTR_UID_def ATTR_GID_def
        ATTR_SIZE_def attr_bit_clear)

lemma setattr_mask_gid:
  "setattr_mask attr ino AND ATTR_GID = 0 \<longleftrightarrow>
     (ia_valid attr AND ATTR_GID = 0 \<or> ia_gid attr = i_gid ino)"
  by (simp add: setattr_mask_def Let_def attr_all ATTR_MODE_def ATTR_UID_def ATTR_GID_def
        ATTR_SIZE_def attr_bit_clear)

lemma setattr_mask_size:
  "setattr_mask attr ino AND ATTR_SIZE = 0 \<longleftrightarrow>
     (ia_valid attr AND ATTR_SIZE = 0 \<or> ia_size attr \<noteq> 0 \<or> ia_size attr = i_size ino)"
  by (simp add: setattr_mask_def Let_def attr_all ATTR_MODE_def ATTR_UID_def ATTR_GID_def
        ATTR_SIZE_def attr_bit_clear)

lemma setattr_mask_within: "setattr_mask attr ino AND 15 = setattr_mask attr ino"
  by (simp add: setattr_mask_def Let_def attr_all and_15_idem clear_keeps_15)

lemma setattr_mask_zero_iff:
  "setattr_mask attr ino = 0 \<longleftrightarrow>
     (ia_valid attr AND ATTR_MODE = 0 \<or> ia_mode attr = i_mode ino)
     \<and> (ia_valid attr AND ATTR_UID = 0 \<or> ia_uid attr = i_uid ino)
     \<and> (ia_valid attr AND ATTR_GID = 0 \<or> ia_gid attr = i_gid ino)
     \<and> (ia_valid attr AND ATTR_SIZE = 0 \<or> ia_size attr \<noteq> 0 \<or> ia_size attr = i_size ino)"
  (is "?l \<longleftrightarrow> ?r")
proof
  assume ?l
  then have "setattr_mask attr ino AND ATTR_MODE = 0" "setattr_mask attr ino AND ATTR_UID = 0"
    "setattr_mask attr ino AND ATTR_GID = 0" "setattr_mask attr ino AND ATTR_SIZE = 0"
    by simp_all
  then show ?r
    by (simp only: setattr_mask_mode setattr_mask_uid setattr_mask_gid setattr_mask_size)
next
  assume ?r
  then have "setattr_mask attr ino AND ATTR_MODE = 0" "setattr_mask attr ino AND ATTR_UID = 0"
    "setattr_mask attr ino AND ATTR_GID = 0" "setattr_mask attr ino AND ATTR_SIZE = 0"
    by (simp_all only: setattr_mask_mode setattr_mask_uid setattr_mask_gid setattr_mask_size)
  then have b: "setattr_mask attr ino AND 2 ^ 0 = 0" "setattr_mask attr ino AND 2 ^ 1 = 0"
    "setattr_mask attr ino AND 2 ^ 2 = 0" "setattr_mask attr ino AND 2 ^ 3 = 0"
    by (simp_all add: attr_pow)
  have w: "setattr_mask attr ino AND mask 4 = setattr_mask attr ino"
    using setattr_mask_within [of attr ino] by (simp add: fifteen_mask)
  show ?l
    by (rule mask4_zero [OF w b])
qed


lemma dynsec_inode_setattr_filtered:
  "d_inode d = Some ino \<Longrightarrow> setattr_mask attr ino = 0 \<Longrightarrow>
   dynsec_inode_setattr env (Some d) (Some attr) = \<lparr>h_ret = 0, h_calls = []\<rparr>"
  by (simp add: dynsec_inode_setattr_def Let_def out_def)

text \<open>
  Claim C7: \<^verbatim>\<open>dynsec_inode_setattr\<close> builds no event and returns 0 when every field
  the request selects among mode, uid, gid and size already has the requested value; the
  size bit survives the filter exactly when the requested size is 0 and the inode is not
  empty, so a request for the size alone builds no event in any other case.
\<close>

theorem dynsec_inode_setattr_drops_redundant:
  assumes d: "d_inode d = Some ino"
  shows "((ia_valid attr AND ATTR_MODE \<noteq> 0 \<longrightarrow> ia_mode attr = i_mode ino)
          \<and> (ia_valid attr AND ATTR_UID \<noteq> 0 \<longrightarrow> ia_uid attr = i_uid ino)
          \<and> (ia_valid attr AND ATTR_GID \<noteq> 0 \<longrightarrow> ia_gid attr = i_gid ino)
          \<and> (ia_valid attr AND ATTR_SIZE \<noteq> 0 \<longrightarrow> ia_size attr = i_size ino)
          \<longrightarrow> dynsec_inode_setattr env (Some d) (Some attr) = \<lparr>h_ret = 0, h_calls = []\<rparr>)
       \<and> (setattr_mask attr ino AND ATTR_SIZE \<noteq> 0 \<longleftrightarrow>
            ia_valid attr AND ATTR_SIZE \<noteq> 0 \<and> ia_size attr = 0 \<and> i_size ino \<noteq> 0)
       \<and> (ia_valid attr AND (ATTR_MODE OR ATTR_UID OR ATTR_GID OR ATTR_SIZE) = ATTR_SIZE
            \<and> \<not> (ia_size attr = 0 \<and> i_size ino \<noteq> 0)
          \<longrightarrow> dynsec_inode_setattr env (Some d) (Some attr) = \<lparr>h_ret = 0, h_calls = []\<rparr>)"
proof -
  have 1: "dynsec_inode_setattr env (Some d) (Some attr) = \<lparr>h_ret = 0, h_calls = []\<rparr>"
    if "(ia_valid attr AND ATTR_MODE \<noteq> 0 \<longrightarrow> ia_mode attr = i_mode ino)
          \<and> (ia_valid attr AND ATTR_UID \<noteq> 0 \<longrightarrow> ia_uid attr = i_uid ino)
          \<and> (ia_valid attr AND ATTR_GID \<noteq> 0 \<longrightarrow> ia_gid attr = i_gid ino)
          \<and> (ia_valid attr AND ATTR_SIZE \<noteq> 0 \<longrightarrow> ia_size attr = i_size ino)"
  proof -
    from that have "setattr_mask attr ino = 0"
      unfolding setattr_mask_zero_iff by blast
    with d show ?thesis
      by (rule dynsec_inode_setattr_filtered)
  qed
  have 2: "setattr_mask attr ino AND ATTR_SIZE \<noteq> 0 \<longleftrightarrow>
            ia_valid attr AND ATTR_SIZE \<noteq> 0 \<and> ia_size attr = 0 \<and> i_size ino \<noteq> 0"
    using setattr_mask_size [of attr ino] by auto
  have 3: "dynsec_inode_setattr env (Some d) (Some attr) = \<lparr>h_ret = 0, h_calls = []\<rparr>"
    if only: "ia_valid attr AND (ATTR_MODE OR ATTR_UID OR ATTR_GID OR ATTR_SIZE) = ATTR_SIZE"
      and no: "\<not> (ia_size attr = 0 \<and> i_size ino \<noteq> 0)"
  proof -
    from only have v: "ia_valid attr AND 15 = 8"
      unfolding attr_all by (simp add: ATTR_SIZE_def)
    have "ia_valid attr AND 1 = (ia_valid attr AND 15) AND 1"
         "ia_valid attr AND 2 = (ia_valid attr AND 15) AND 2"
         "ia_valid attr AND 4 = (ia_valid attr AND 15) AND 4"
      by (simp_all add: attr_bit_clear)
    then have "ia_valid attr AND ATTR_MODE = 0" "ia_valid attr AND ATTR_UID = 0"
      "ia_valid attr AND ATTR_GID = 0"
      by (simp_all add: v ATTR_MODE_def ATTR_UID_def ATTR_GID_def)
    with no have "setattr_mask attr ino = 0"
      unfolding setattr_mask_zero_iff by auto
    with d show ?thesis
      by (rule dynsec_inode_setattr_filtered)
  qed
  show ?thesis
    using 1 2 3 by blast
qed

theorem dynsec_inode_setattr_drops_redundant_witness:
  "dynsec_inode_setattr sample_env (Some \<lparr>d_inode = Some regular_inode\<rparr>) (Some chmod_same_attr)
     = \<lparr>h_ret = 0, h_calls = []\<rparr>
   \<and> setattr_mask truncate_attr regular_inode AND ATTR_SIZE \<noteq> 0
   \<and> dynsec_inode_setattr sample_env (Some \<lparr>d_inode = Some regular_inode\<rparr>)
         (Some (truncate_attr\<lparr>ia_size := 4096\<rparr>))
     = \<lparr>h_ret = 0, h_calls = []\<rparr>"
proof -
  have d: "d_inode \<lparr>d_inode = Some regular_inode\<rparr> = Some regular_inode"
    by simp
  have a: "(ia_valid chmod_same_attr AND ATTR_MODE \<noteq> 0 \<longrightarrow> ia_mode chmod_same_attr = i_mode regular_inode)
          \<and> (ia_valid chmod_same_attr AND ATTR_UID \<noteq> 0 \<longrightarrow> ia_uid chmod_same_attr = i_uid regular_inode)
          \<and> (ia_valid chmod_same_attr AND ATTR_GID \<noteq> 0 \<longrightarrow> ia_gid chmod_same_attr = i_gid regular_inode)
          \<and> (ia_valid chmod_same_attr AND ATTR_SIZE \<noteq> 0 \<longrightarrow> ia_size chmod_same_attr = i_size regular_inode)"
    by (simp add: chmod_same_attr_def regular_inode_def ATTR_MODE_def ATTR_UID_def ATTR_GID_def
          ATTR_SIZE_def)
  have b: "ia_valid truncate_attr AND ATTR_SIZE \<noteq> 0 \<and> ia_size truncate_attr = 0
           \<and> i_size regular_inode \<noteq> 0"
    by (simp add: truncate_attr_def regular_inode_def ATTR_SIZE_def)
  have c: "ia_valid (truncate_attr\<lparr>ia_size := 4096\<rparr>)
             AND (ATTR_MODE OR ATTR_UID OR ATTR_GID OR ATTR_SIZE) = ATTR_SIZE
           \<and> \<not> (ia_size (truncate_attr\<lparr>ia_size := 4096\<rparr>) = 0 \<and> i_size regular_inode \<noteq> 0)"
    by (simp add: truncate_attr_def ATTR_MODE_def ATTR_UID_def ATTR_GID_def ATTR_SIZE_def)
  show ?thesis
    using dynsec_inode_setattr_drops_redundant [OF d, of chmod_same_attr sample_env]
      dynsec_inode_setattr_drops_redundant [OF d, of truncate_attr sample_env]
      dynsec_inode_setattr_drops_redundant
        [OF d, of "truncate_attr\<lparr>ia_size := 4096\<rparr>" sample_env]
      a b c
    by blast
qed

section \<open>What the adapters do with their event\<close>

lemma wait_calls_shape:
  "w_calls (dynsec_wait_event_timeout env (Some ev) (Some r0)) \<in>
     {[Free_dynsec_event (Some ev)],
      [Stall_tbl_insert ev, Free_dynsec_event (Some ev)],
      [Stall_tbl_insert ev, Kfree_entry],
      [Stall_tbl_insert ev, Stall_tbl_remove_entry, Kfree_entry],
      [Stall_tbl_insert ev]}"
  by (simp add: dynsec_wait_event_timeout_def stall_tbl_insert_def Let_def case_prod_beta
        do_stall_interruptible_parts)

lemma stall_or_enqueue_calls:
  "h_calls (stall_or_enqueue env ev ret) \<in>
     {[Enqueue_nonstall_event ev],
      [Dynsec_wait_event_timeout ev, Free_dynsec_event (Some ev)],
      [Dynsec_wait_event_timeout ev, Stall_tbl_insert ev, Free_dynsec_event (Some ev)],
      [Dynsec_wait_event_timeout ev, Stall_tbl_insert ev, Kfree_entry],
      [Dynsec_wait_event_timeout ev, Stall_tbl_insert ev, Stall_tbl_remove_entry, Kfree_entry],
      [Dynsec_wait_event_timeout ev, Stall_tbl_insert ev]}"
  using wait_calls_shape [of env ev 0]
  by (auto simp: stall_or_enqueue_def Let_def)




























lemma flag_bits:
  "DYNSEC_REPORT_AUDIT = 4" "DYNSEC_REPORT_STALL = 1" "DYNSEC_REPORT_SELF = 16"
  by (simp_all add: DYNSEC_REPORT_AUDIT_def DYNSEC_REPORT_STALL_def DYNSEC_REPORT_SELF_def)









lemma agent_exec_calls:
  "h_calls (run_hook agent_env (Bprm_set_creds (Some sample_bprm)))
     = [Enqueue_nonstall_event agent_exec_event]"
  by (simp add: dynsec_bprm_set_creds_def agent_env_def sample_env_def sample_bprm_def
        self_or_stall_def agent_task_def sample_task_def alloc_dynsec_event_def
        fill_then_send_def fill_in_def agent_exec_event_def Let_def stall_or_enqueue_def
        flag_bits)

lemma enqueue_unchecked_calls:
  "enqueue_unchecked (out ret)"
  "enqueue_unchecked \<lparr>h_ret = ret, h_calls = []\<rparr>"
  "enqueue_unchecked \<lparr>h_ret = ret, h_calls = [Free_dynsec_event x]\<rparr>"
  "enqueue_unchecked \<lparr>h_ret = ret, h_calls = [Enqueue_nonstall_event ev]\<rparr>"
  "enqueue_unchecked \<lparr>h_ret = ret, h_calls = [Enqueue_nonstall_event_low_pri ev]\<rparr>"
  by (simp_all add: enqueue_unchecked_def out_def)

lemma enqueue_unchecked_stall_or_enqueue: "enqueue_unchecked (stall_or_enqueue env ev ret)"
  using stall_or_enqueue_calls [of env ev ret]
  by (auto simp: enqueue_unchecked_def)

lemma enqueue_unchecked_fill_then_send: "enqueue_unchecked (fill_then_send env event ret)"
  by (simp add: fill_then_send_def enqueue_unchecked_calls enqueue_unchecked_stall_or_enqueue
        split: option.split)

lemma enqueue_unchecked_fill_then_enqueue:
  "enqueue_unchecked \<lparr>h_ret = ret, h_calls = fill_then_enqueue env event lp\<rparr>"
  by (simp add: fill_then_enqueue_def enqueue_unchecked_calls split: option.split)

lemma enqueue_unchecked_mmap: "enqueue_unchecked (dynsec_mmap_file env f prot flags)"
  by (simp add: dynsec_mmap_file_def Let_def enqueue_unchecked_calls
        enqueue_unchecked_stall_or_enqueue split: option.split prod.split)

lemma enqueue_unchecked_new_hooks: "\<not> is_hooks_c c \<Longrightarrow> enqueue_unchecked (run_hook env c)"
  by (cases c)
     (simp_all add: dynsec_bprm_set_creds_def dynsec_inode_unlink_def dynsec_inode_rmdir_def
        dynsec_inode_rename_def inode_remove_hook_def dynsec_inode_setattr_def
        dynsec_inode_mkdir_def dynsec_inode_create_def dynsec_inode_link_def
        dynsec_inode_symlink_def inode_add_hook_def dynsec_file_open_def
        dynsec_file_free_security_def dynsec_ptrace_traceme_def dynsec_ptrace_access_check_def
        dynsec_task_kill_def dynsec_sched_process_fork_tp_def dynsec_task_free_def
        dynsec_sched_process_exit_tp_def dynsec_sched_process_free_tp_def dynsec_task_exit_def
        dynsec_wake_up_new_task_def enqueue_unchecked_mmap Let_def enqueue_unchecked_calls
        enqueue_unchecked_fill_then_send enqueue_unchecked_fill_then_enqueue
        split: option.split)

lemma enqueue_checked_calls:
  "enqueue_checked x (out ret)"
  "enqueue_checked x \<lparr>h_ret = ret, h_calls = [Free_dynsec_event y]\<rparr>"
  by (simp_all add: enqueue_checked_def out_def)

lemma enqueue_checked_send_hooks_c:
  "enqueue_checked (enqueue_ret env) (send_hooks_c env rf ev ret)"
  using wait_calls_shape [of env ev 0]
  by (auto simp: send_hooks_c_def enqueue_checked_def Let_def)

lemma enqueue_checked_hooks_c: "is_hooks_c c \<Longrightarrow> enqueue_checked (enqueue_ret env) (run_hook env c)"
  by (cases c)
     (simp_all add: dynsec_bprm_set_creds_hooks_c_def dynsec_inode_unlink_hooks_c_def
        dynsec_inode_rmdir_hooks_c_def dynsec_inode_rename_hooks_c_def
        inode_remove_hook_hooks_c_def Let_def enqueue_checked_calls
        enqueue_checked_send_hooks_c split: option.split)

lemma agent_exec_calls_hooks_c:
  "Enqueue_nonstall_event agent_exec_event
     \<in> set (h_calls (run_hook agent_env (Bprm_set_creds_hooks_c (Some sample_bprm))))"
  by (simp add: dynsec_bprm_set_creds_hooks_c_def agent_env_def sample_env_def sample_bprm_def
        self_or_stall_def agent_task_def sample_task_def alloc_dynsec_event_def
        send_hooks_c_def fill_in_def agent_exec_event_def Let_def flag_bits)














text \<open>
  Claim C8, as the code has it. The spec has the adapter free an event whenever
  \<^verbatim>\<open>enqueue_nonstall_event\<close> returns 0. The four adapters of \<^verbatim>\<open>hooks.c\<close> do; every
  adapter of the newer hooks file casts the returned value to \<^verbatim>\<open>void\<close> and does nothing
  more with the event.
  Amended claim: in the adapters of \<^verbatim>\<open>hooks.c\<close>, an event passed to
  \<^verbatim>\<open>enqueue_nonstall_event\<close> is freed by the adapter exactly when the call returns 0; in
  the adapters of the newer hooks file the enqueue is the adapter's only call, whatever
  it returns.
\<close>

theorem enqueue_failure_handling:
  "(is_hooks_c c \<longrightarrow>
      (\<forall>e. Enqueue_nonstall_event e \<in> set (h_calls (run_hook env c)) \<longrightarrow>
           h_calls (run_hook env c) =
             (if enqueue_ret env = 0
              then [Enqueue_nonstall_event e, Free_dynsec_event (Some e)]
              else [Enqueue_nonstall_event e])))
   \<and> (\<not> is_hooks_c c \<longrightarrow>
      (\<forall>e. Enqueue_nonstall_event e \<in> set (h_calls (run_hook env c))
            \<or> Enqueue_nonstall_event_low_pri e \<in> set (h_calls (run_hook env c)) \<longrightarrow>
           h_calls (run_hook env c) = [Enqueue_nonstall_event e]
           \<or> h_calls (run_hook env c) = [Enqueue_nonstall_event_low_pri e]))"
  using enqueue_checked_hooks_c [of c env] enqueue_unchecked_new_hooks [of c env]
  by (simp add: enqueue_checked_def enqueue_unchecked_def)

theorem enqueue_failure_handling_witness:
  "enqueue_ret agent_env = 0
   \<and> h_calls (run_hook agent_env (Bprm_set_creds_hooks_c (Some sample_bprm)))
       = [Enqueue_nonstall_event agent_exec_event, Free_dynsec_event (Some agent_exec_event)]
   \<and> h_calls (run_hook agent_env (Bprm_set_creds (Some sample_bprm)))
       = [Enqueue_nonstall_event agent_exec_event]"
proof -
  have z: "enqueue_ret agent_env = 0"
    by (simp add: agent_env_def sample_env_def)
  have h: "is_hooks_c (Bprm_set_creds_hooks_c (Some sample_bprm))"
          "\<not> is_hooks_c (Bprm_set_creds (Some sample_bprm))"
    by simp_all
  have m: "Enqueue_nonstall_event agent_exec_event
             \<in> set (h_calls (run_hook agent_env (Bprm_set_creds (Some sample_bprm))))"
    unfolding agent_exec_calls by simp
  have d: "[Enqueue_nonstall_event agent_exec_event]
             \<noteq> [Enqueue_nonstall_event_low_pri agent_exec_event]"
    by simp
  from enqueue_failure_handling [of "Bprm_set_creds_hooks_c (Some sample_bprm)" agent_env]
    h(1) agent_exec_calls_hooks_c z
  have 1: "h_calls (run_hook agent_env (Bprm_set_creds_hooks_c (Some sample_bprm)))
       = [Enqueue_nonstall_event agent_exec_event, Free_dynsec_event (Some agent_exec_event)]"
    by auto
  from enqueue_failure_handling [of "Bprm_set_creds (Some sample_bprm)" agent_env] h(2) m
  have 2: "h_calls (run_hook agent_env (Bprm_set_creds (Some sample_bprm)))
       = [Enqueue_nonstall_event agent_exec_event]"
    by fastforce
  show ?thesis
    using z 1 2 by simp
qed

text \<open>
  The claim as the spec states it fails in the newer exec adapter: the queue returns 0 for
  the agent's exec event and the adapter does not free it.
\<close>

theorem enqueue_failure_counterexample:
  "enqueue_ret agent_env = 0
   \<and> h_calls (run_hook agent_env (Bprm_set_creds (Some sample_bprm)))
       = [Enqueue_nonstall_event agent_exec_event]
   \<and> Free_dynsec_event (Some agent_exec_event)
       \<notin> set (h_calls (run_hook agent_env (Bprm_set_creds (Some sample_bprm))))"
proof -
  have z: "enqueue_ret agent_env = 0"
    by (simp add: agent_env_def sample_env_def)
  show ?thesis
    unfolding agent_exec_calls using z by simp
qed

end
